theory Spec2Isabelle
  imports Complex_Main "HOL-Library.Extended_Nat" "HOL-Library.Char_ord"
    "HOL-Library.List_Lexorder" "HOL-Library.AList" "HOL-Library.Log_Nat"
begin

section \<open>JavaScript values\<close>

text \<open>
  The backend is JavaScript. A Number is an IEEE double: a finite one is written
  \<open>Fin x\<close> with the rational \<open>x\<close> that it is, and NaN and the two infinities stand
  beside it. The sign of zero is left out.
\<close>

datatype number = Fin rat | NaN | PosInfinity | NegInfinity

text \<open>
  The double nearest to a real number, as a decimal text read by \<open>parseFloat\<close> and the
  result of an arithmetic operation are. For \<open>a > 0\<close>, \<open>exponent a\<close> is the \<open>e\<close> with
  \<open>2^e \<le> a < 2^(e+1)\<close>; the doubles near \<open>a\<close> are the multiples of \<open>2^(e-52)\<close>, of
  \<open>2^(-1074)\<close> below the normal range; the nearest of them is taken, the one with the
  even multiplier of two equally near, and a result of \<open>2^1024\<close> or more is an infinity.
\<close>

definition exponent :: "rat \<Rightarrow> int" where
  "exponent a = (if 1 \<le> a then bitlen \<lfloor>a\<rfloor> - 1 else - bitlen (\<lceil>1 / a\<rceil> - 1))"

definition roundHalfEven :: "rat \<Rightarrow> int" where
  "roundHalfEven y =
     (let m = \<lfloor>y\<rfloor>; f = y - of_int m
      in if f < 1 / 2 then m else if 1 / 2 < f then m + 1 else if even m then m else m + 1)"

definition quantum :: "rat \<Rightarrow> rat" where
  "quantum a = 2 powi (max (exponent a) (- 1022) - 52)"

definition nearestDouble :: "rat \<Rightarrow> rat" where
  "nearestDouble a = of_int (roundHalfEven (a / quantum a)) * quantum a"

definition double :: "rat \<Rightarrow> number" where
  "double x =
     (if x = 0 then Fin 0
      else if 2 ^ 1024 \<le> nearestDouble \<bar>x\<bar>
        then (if 0 < x then PosInfinity else NegInfinity)
      else Fin (if 0 < x then nearestDouble \<bar>x\<bar> else - nearestDouble \<bar>x\<bar>))"

text \<open>
  Not every rational is a double. A value \<open>Fin x\<close> is a Number that the program can hold
  when \<open>x\<close> is the double nearest to itself.
\<close>

fun representable :: "number \<Rightarrow> bool" where
  "representable (Fin x) = (double x = Fin x)"
| "representable n = True"

datatype jsval =
    Undefined
  | Null
  | Bool bool
  | Number number
  | Str string
  | Arr "jsval list"
  | Obj "(string \<times> jsval) list"

datatype error = TypeError

text \<open>ToBoolean: what \<open>if (x)\<close>, \<open>x && y\<close>, \<open>x || y\<close> and \<open>!x\<close> test.\<close>

fun truthyNumber :: "number \<Rightarrow> bool" where
  "truthyNumber (Fin x) = (x \<noteq> 0)"
| "truthyNumber NaN = False"
| "truthyNumber PosInfinity = True"
| "truthyNumber NegInfinity = True"

fun truthy :: "jsval \<Rightarrow> bool" where
  "truthy Undefined = False"
| "truthy Null = False"
| "truthy (Bool b) = b"
| "truthy (Number n) = truthyNumber n"
| "truthy (Str s) = (s \<noteq> [])"
| "truthy (Arr xs) = True"
| "truthy (Obj ps) = True"

text \<open>
  A read \<open>table[key]\<close> of a table of Numbers gives the stored Number, or \<open>undefined\<close>
  (\<open>None\<close>) when the table has no such key.
\<close>

type_synonym stored = "number option"

fun truthyProp :: "stored \<Rightarrow> bool" where
  "truthyProp None = False"
| "truthyProp (Some n) = truthyNumber n"

fun propValue :: "stored \<Rightarrow> jsval" where
  "propValue None = Undefined"
| "propValue (Some n) = Number n"

text \<open>ToNumber on such a read: \<open>undefined\<close> becomes NaN.\<close>

fun ToNumber :: "stored \<Rightarrow> number" where
  "ToNumber None = NaN"
| "ToNumber (Some n) = n"

text \<open>The operator \<open>/\<close> on Numbers: the double nearest to the quotient.\<close>

fun jsdiv :: "number \<Rightarrow> number \<Rightarrow> number" where
  "jsdiv (Fin a) (Fin b) =
     (if b \<noteq> 0 then double (a / b)
      else if a = 0 then NaN
      else if 0 < a then PosInfinity else NegInfinity)"
| "jsdiv (Fin a) PosInfinity = Fin 0"
| "jsdiv (Fin a) NegInfinity = Fin 0"
| "jsdiv PosInfinity (Fin b) = (if 0 \<le> b then PosInfinity else NegInfinity)"
| "jsdiv NegInfinity (Fin b) = (if 0 \<le> b then NegInfinity else PosInfinity)"
| "jsdiv NaN y = NaN"
| "jsdiv x NaN = NaN"
| "jsdiv PosInfinity PosInfinity = NaN"
| "jsdiv PosInfinity NegInfinity = NaN"
| "jsdiv NegInfinity PosInfinity = NaN"
| "jsdiv NegInfinity NegInfinity = NaN"

text \<open>
  \<open>x.toFixed(2)\<close> writes the multiple of 1/100 nearest to the double \<open>x\<close>, the larger
  in magnitude of two that are equally near, and \<open>parseFloat\<close> reads that text as the
  double nearest to it. From 1e21 on \<open>toFixed\<close> writes the double as \<open>String\<close> does, and
  \<open>parseFloat\<close> reads the same double back. NaN and the infinities are written by name
  and read back unchanged.
\<close>

definition toFixed2 :: "rat \<Rightarrow> rat" where
  "toFixed2 x =
     (if x < 0 then - (of_int \<lfloor>- x * 100 + 1 / 2\<rfloor> / 100)
      else of_int \<lfloor>x * 100 + 1 / 2\<rfloor> / 100)"

fun parseFloat_toFixed2 :: "number \<Rightarrow> number" where
  "parseFloat_toFixed2 (Fin x) = (if 10 ^ 21 \<le> \<bar>x\<bar> then Fin x else double (toFixed2 x))"
| "parseFloat_toFixed2 NaN = NaN"
| "parseFloat_toFixed2 PosInfinity = PosInfinity"
| "parseFloat_toFixed2 NegInfinity = NegInfinity"

text \<open>
  \<open>s.toLowerCase()\<close> on the letters A to Z; every other byte of the text is kept.
\<close>

definition lowerChar :: "char \<Rightarrow> char" where
  "lowerChar c =
     (if CHR ''A'' \<le> c \<and> c \<le> CHR ''Z'' then char_of (of_char c + (32::nat)) else c)"

definition toLowerCase :: "string \<Rightarrow> string" where
  "toLowerCase s = map lowerChar s"

section \<open>Historical price tables and the live spot cache (backend/server.js)\<close>

text \<open>
  \<open>historicalGoldPrices\<close> and \<open>historicalGoldSilverRatio\<close> are objects from a date
  text to a Number: a table is the list of the object's own properties, and a read
  is \<open>map_of\<close>. \<open>spotPriceCache\<close> holds whatever the price feed delivered, so its
  two prices are JavaScript values; its timestamp is \<open>null\<close> (\<open>None\<close>) or the
  milliseconds of \<open>Date.now()\<close>. In the result of \<open>getHistoricalPrice\<close> the field
  \<open>note\<close> of the source is written \<open>explanation\<close>.
\<close>

type_synonym table = "(string \<times> number) list"

record spot_cache =
  silver :: jsval
  gold :: jsval
  timestamp :: "int option"

definition spotPriceCache_init :: spot_cache where
  "spotPriceCache_init =
     \<lparr>silver = Number (Fin 30.50), gold = Number (Fin 2650.00), timestamp = None\<rparr>"

record resolved =
  price :: jsval
  source :: string
  explanation :: string

subsection \<open>findNearestValue\<close>

text \<open>
  \<open>new Date(text).getTime()\<close> is a whole number of milliseconds, or NaN when the text
  is no date. How a text is read as a date belongs to the runtime; the functions
  below take it as the parameter \<open>getTime\<close>, with \<open>None\<close> for NaN.

  \<open>Math.abs(a - b)\<close> on two such times: NaN as soon as one of them is NaN.
\<close>

type_synonym clock = "string \<Rightarrow> int option"

fun absDiff :: "int option \<Rightarrow> int option \<Rightarrow> nat option" where
  "absDiff (Some a) (Some b) = Some (nat \<bar>a - b\<bar>)"
| "absDiff _ _ = None"

text \<open>
  The reading that the examples below use: the date-only form \<open>YYYY-MM-DD\<close>, which is the
  form the two endpoints let through. Node reads it as midnight UTC of that day, takes a
  month from 01 to 12 and a day from 01 to 31, and counts a day past the end of the
  month into the next month. Any other text is no date in this reading.
\<close>

definition digit :: "char \<Rightarrow> int option" where
  "digit c = map_of (zip ''0123456789'' [0, 1, 2, 3, 4, 5, 6, 7, 8, 9]) c"

fun digits :: "char list \<Rightarrow> int option" where
  "digits [] = Some 0"
| "digits (c # cs) =
     (case (digit c, digits cs) of
        (Some d, Some r) \<Rightarrow> Some (d * 10 ^ length cs + r)
      | _ \<Rightarrow> None)"

text \<open>Days from 1970-01-01 to the given day of the Gregorian calendar.\<close>

definition daysFromCivil :: "int \<Rightarrow> int \<Rightarrow> int \<Rightarrow> int" where
  "daysFromCivil y m d =
     (let y' = (if m \<le> 2 then y - 1 else y);
          era = y' div 400;
          yoe = y' - era * 400;
          doy = (153 * (if 2 < m then m - 3 else m + 9) + 2) div 5 + d - 1;
          doe = yoe * 365 + yoe div 4 - yoe div 100 + doy
      in era * 146097 + doe - 719468)"

definition isoDate :: clock where
  "isoDate s =
     (case s of
        [y1, y2, y3, y4, h1, m1, m2, h2, d1, d2] \<Rightarrow>
          (if h1 = CHR ''-'' \<and> h2 = CHR ''-'' then
             (case (digits [y1, y2, y3, y4], digits [m1, m2], digits [d1, d2]) of
                (Some y, Some m, Some d) \<Rightarrow>
                  (if 1 \<le> m \<and> m \<le> 12 \<and> 1 \<le> d \<and> d \<le> 31
                   then Some (daysFromCivil y m d * 86400000) else None)
              | _ \<Rightarrow> None)
           else None)
      | _ \<Rightarrow> None)"

text \<open>
  One round of the loop \<open>for (const date of dates)\<close>. The state is the pair of
  \<open>closest\<close> (\<open>null\<close> is \<open>None\<close>) and \<open>closestDiff\<close> (\<open>Infinity\<close> is \<open>\<infinity>\<close>). A NaN
  difference is never smaller, so it leaves the state as it is.
\<close>

definition nearestStep ::
  "clock \<Rightarrow> int option \<Rightarrow> (string \<times> number) option \<times> enat \<Rightarrow> string \<times> number
    \<Rightarrow> (string \<times> number) option \<times> enat" where
  "nearestStep getTime target st e =
     (case absDiff (getTime (fst e)) target of
        None \<Rightarrow> st
      | Some diff \<Rightarrow> if enat diff < snd st then (Some e, enat diff) else st)"

text \<open>
  \<open>Object.keys(dataObj).sort()\<close> visits the keys in ascending order of their text, and
  \<open>dataObj[date]\<close> is the value stored with the key: the loop runs over the properties
  sorted by key.
\<close>

definition findNearestValue :: "clock \<Rightarrow> table \<Rightarrow> string \<Rightarrow> (string \<times> number) option" where
  "findNearestValue getTime dataObj targetDate =
     (let dates = sort_key fst dataObj in
      if dates = [] then None
      else
        let target = getTime targetDate;
            (closest, closestDiff) = foldl (nearestStep getTime target) (None, \<infinity>) dates
        in if closestDiff \<le> enat (30 * 24 * 60 * 60 * 1000) then closest else None)"

text \<open>
  For the statements about this lookup: a key within 30 days of the target date, and
  an entry of the table that is within 30 days and that no dated entry is nearer than.
\<close>

abbreviation within30 :: "clock \<Rightarrow> string \<Rightarrow> string \<Rightarrow> bool" where
  "within30 getTime targetDate k \<equiv>
     (\<exists>n. absDiff (getTime k) (getTime targetDate) = Some n \<and> n \<le> 30 * 24 * 60 * 60 * 1000)"

abbreviation nearestIn :: "clock \<Rightarrow> table \<Rightarrow> string \<Rightarrow> string \<times> number \<Rightarrow> bool" where
  "nearestIn getTime dataObj targetDate e \<equiv>
     e \<in> set dataObj \<and>
     (\<exists>n. absDiff (getTime (fst e)) (getTime targetDate) = Some n
        \<and> n \<le> 30 * 24 * 60 * 60 * 1000
        \<and> (\<forall>e' \<in> set dataObj. \<forall>n'.
              absDiff (getTime (fst e')) (getTime targetDate) = Some n' \<longrightarrow> n \<le> n'))"

subsection \<open>getHistoricalPrice\<close>

text \<open>
  \<open>(metal || 'silver').toLowerCase()\<close>: a falsy \<open>metal\<close> stands for silver, a text is
  lower-cased, and any other truthy value has no \<open>toLowerCase\<close>, which throws.
\<close>

definition metalTypeOf :: "jsval \<Rightarrow> error + string" where
  "metalTypeOf metal =
     (case (if truthy metal then metal else Str ''silver'') of
        Str s \<Rightarrow> Inr (toLowerCase s)
      | _ \<Rightarrow> Inl TypeError)"

definition resolveHistorical ::
  "clock \<Rightarrow> table \<Rightarrow> table \<Rightarrow> spot_cache \<Rightarrow> string \<Rightarrow> string \<Rightarrow> resolved" where
  "resolveHistorical getTime historicalGoldPrices historicalGoldSilverRatio spotPriceCache
      date metalType =
     (let goldPrice = map_of historicalGoldPrices date;
          ratio = map_of historicalGoldSilverRatio date
      in
      if metalType = ''gold'' \<and> truthyProp goldPrice then
        \<lparr>price = propValue goldPrice, source = ''exact'',
         explanation = ''Exact daily price from freegoldapi.com''\<rparr>
      else if metalType = ''silver'' \<and> truthyProp goldPrice \<and> truthyProp ratio then
        \<lparr>price = Number (parseFloat_toFixed2 (jsdiv (ToNumber goldPrice) (ToNumber ratio))),
         source = ''exact'',
         explanation = ''Calculated from exact gold price and gold/silver ratio''\<rparr>
      else if metalType = ''silver'' \<and> truthyProp goldPrice then
        (case findNearestValue getTime historicalGoldSilverRatio date of
           Some nearestRatio \<Rightarrow>
             \<lparr>price = Number (parseFloat_toFixed2
                        (jsdiv (ToNumber goldPrice) (snd nearestRatio))),
              source = ''interpolated'',
              explanation = ''Gold price exact, ratio from '' @ fst nearestRatio\<rparr>
         | None \<Rightarrow>
             \<lparr>price = Number (parseFloat_toFixed2 (jsdiv (ToNumber goldPrice) (Fin 80))),
              source = ''estimated'',
              explanation = ''Calculated from gold price with estimated ratio''\<rparr>)
      else
        (case (if metalType = ''gold''
               then findNearestValue getTime historicalGoldPrices date else None) of
           Some nearest \<Rightarrow>
             \<lparr>price = Number (snd nearest), source = ''nearest'',
              explanation = ''Nearest available date: '' @ fst nearest\<rparr>
         | None \<Rightarrow>
             (case (if metalType = ''silver''
                    then findNearestValue getTime historicalGoldPrices date else None) of
                Some nearestGold \<Rightarrow>
                  (let ratioToUse =
                         (case findNearestValue getTime historicalGoldSilverRatio date of
                            Some nearestRatio \<Rightarrow> snd nearestRatio
                          | None \<Rightarrow> Fin 80)
                   in \<lparr>price = Number (parseFloat_toFixed2
                                  (jsdiv (snd nearestGold) ratioToUse)),
                       source = ''interpolated'',
                       explanation = ''Estimated from '' @ fst nearestGold @ '' gold price''\<rparr>)
              | None \<Rightarrow>
                  \<lparr>price = (if metalType = ''silver''
                            then silver spotPriceCache else gold spotPriceCache),
                   source = ''fallback'',
                   explanation = ''Historical data unavailable - using current price''\<rparr>)))"

definition getHistoricalPrice ::
  "clock \<Rightarrow> table \<Rightarrow> table \<Rightarrow> spot_cache \<Rightarrow> string \<Rightarrow> jsval \<Rightarrow> error + resolved" where
  "getHistoricalPrice getTime historicalGoldPrices historicalGoldSilverRatio spotPriceCache
      date metal =
     (case metalTypeOf metal of
        Inl e \<Rightarrow> Inl e
      | Inr metalType \<Rightarrow>
          Inr (resolveHistorical getTime historicalGoldPrices historicalGoldSilverRatio
                 spotPriceCache date metalType))"

section \<open>GET /api/spot-prices\<close>

text \<open>
  What the request to the price feed comes to: \<open>fetch\<close> rejects (the network fails, or
  the abort fires after five seconds), or it resolves with a response that has the flag
  \<open>ok\<close> and a body, which \<open>response.json()\<close> parses (\<open>None\<close>: the body is no JSON and
  \<open>json()\<close> rejects).
\<close>

datatype fetch_result = FetchFailed | Response bool "jsval option"

text \<open>
  A property read \<open>v.name\<close>, for the names this handler reads (\<open>metal\<close>, \<open>price\<close>,
  \<open>silver\<close>, \<open>gold\<close>): it throws on \<open>null\<close> and \<open>undefined\<close>, an object gives the
  property or \<open>undefined\<close>, and every other value has no property of these names.
\<close>

fun getProp :: "jsval \<Rightarrow> string \<Rightarrow> error + jsval" where
  "getProp Undefined name = Inl TypeError"
| "getProp Null name = Inl TypeError"
| "getProp (Obj ps) name = Inr (case map_of ps name of Some v \<Rightarrow> v | None \<Rightarrow> Undefined)"
| "getProp v name = Inr Undefined"

text \<open>\<open>prices.find(p => p.metal === name)\<close>; \<open>undefined\<close> when no element passes.\<close>

fun findMetal :: "string \<Rightarrow> jsval list \<Rightarrow> error + jsval" where
  "findMetal name [] = Inr Undefined"
| "findMetal name (p # ps) =
     (case getProp p ''metal'' of
        Inl e \<Rightarrow> Inl e
      | Inr m \<Rightarrow> if m = Str name then Inr p else findMetal name ps)"

text \<open>\<open>data?.price\<close> and \<open>v || null\<close>.\<close>

definition priceOf :: "jsval \<Rightarrow> jsval" where
  "priceOf data = (case getProp data ''price'' of Inl e \<Rightarrow> Undefined | Inr p \<Rightarrow> p)"

definition orNull :: "jsval \<Rightarrow> jsval" where
  "orNull v = (if truthy v then v else Null)"

text \<open>The pair \<open>(silver, gold)\<close> that the handler reads from the parsed body.\<close>

definition readPrices :: "jsval \<Rightarrow> error + jsval \<times> jsval" where
  "readPrices prices =
     (case prices of
        Arr ps \<Rightarrow>
          (case findMetal ''silver'' ps of
             Inl e \<Rightarrow> Inl e
           | Inr silverData \<Rightarrow>
               (case findMetal ''gold'' ps of
                  Inl e \<Rightarrow> Inl e
                | Inr goldData \<Rightarrow>
                    Inr (orNull (priceOf silverData), orNull (priceOf goldData))))
      | _ \<Rightarrow>
          (case getProp prices ''silver'' of
             Inl e \<Rightarrow> Inl e
           | Inr s \<Rightarrow>
               (case getProp prices ''gold'' of
                  Inl e \<Rightarrow> Inl e
                | Inr g \<Rightarrow> Inr (orNull s, orNull g))))"

text \<open>
  The \<open>try\<close> block: \<open>Some (silver, gold)\<close> when it reaches the \<open>return\<close> inside
  \<open>if (silver && gold)\<close>, \<open>None\<close> when it falls through or the \<open>catch\<close> takes over.
\<close>

definition liveSpot :: "fetch_result \<Rightarrow> (jsval \<times> jsval) option" where
  "liveSpot fetched =
     (case fetched of
        FetchFailed \<Rightarrow> None
      | Response ok body \<Rightarrow>
          if \<not> ok then None
          else
            (case body of
               None \<Rightarrow> None
             | Some prices \<Rightarrow>
                 (case readPrices prices of
                    Inl e \<Rightarrow> None
                  | Inr (s, g) \<Rightarrow> if truthy s \<and> truthy g then Some (s, g) else None)))"

text \<open>
  The JSON answer. \<open>res_timestamp\<close> is the instant whose ISO text is sent; \<open>cached\<close> and
  \<open>note\<close> are absent (\<open>None\<close>) from some answers.
\<close>

record spot_response =
  res_success :: bool
  res_silver :: jsval
  res_gold :: jsval
  res_timestamp :: int
  res_cached :: "bool option"
  res_note :: "string option"

text \<open>\<open>spotPriceCache.timestamp && (now - spotPriceCache.timestamp) < 5 * 60 * 1000\<close>\<close>

definition fresh :: "spot_cache \<Rightarrow> int \<Rightarrow> bool" where
  "fresh spotPriceCache now =
     (case timestamp spotPriceCache of
        None \<Rightarrow> False
      | Some t \<Rightarrow> t \<noteq> 0 \<and> now - t < 5 * 60 * 1000)"

text \<open>
  The handler, from the cache, \<open>Date.now()\<close> at its start, the outcome of the request
  to the feed and the clock when the answer is written, to the answer and the cache
  it leaves.
\<close>

definition spotPrices ::
  "spot_cache \<Rightarrow> int \<Rightarrow> fetch_result \<Rightarrow> int \<Rightarrow> spot_response \<times> spot_cache" where
  "spotPrices spotPriceCache now fetched clock =
     (if fresh spotPriceCache now then
        (\<lparr>res_success = True, res_silver = silver spotPriceCache,
          res_gold = gold spotPriceCache,
          res_timestamp = (case timestamp spotPriceCache of Some t \<Rightarrow> t | None \<Rightarrow> 0),
          res_cached = Some True, res_note = None\<rparr>,
         spotPriceCache)
      else
        (case liveSpot fetched of
           Some (s, g) \<Rightarrow>
             (\<lparr>res_success = True, res_silver = s, res_gold = g, res_timestamp = clock,
               res_cached = None, res_note = None\<rparr>,
              \<lparr>silver = s, gold = g, timestamp = Some now\<rparr>)
         | None \<Rightarrow>
             (\<lparr>res_success = True, res_silver = silver spotPriceCache,
               res_gold = gold spotPriceCache, res_timestamp = clock,
               res_cached = Some True,
               res_note = Some ''Using cached prices - live API temporarily unavailable''\<rparr>,
              spotPriceCache)))"

text \<open>The cache after a run of requests, each with its clock readings and feed outcome.\<close>

fun served :: "spot_cache \<Rightarrow> (int \<times> fetch_result \<times> int) list \<Rightarrow> spot_cache" where
  "served spotPriceCache [] = spotPriceCache"
| "served spotPriceCache ((now, fetched, clock) # rest) =
     served (snd (spotPrices spotPriceCache now fetched clock)) rest"

section \<open>POST /api/historical-spot/bulk\<close>

text \<open>
  \<open>/^\d{4}-\d{2}-\d{2}$/.test(date)\<close> tests the text of \<open>date\<close>. A text is tested as it
  is and an array of one element as the text of that element; the text of any other
  value (a number, a boolean, \<open>null\<close>, an object, an empty or longer array) cannot
  have this form. The same text is the key that \<open>getHistoricalPrice\<close> and
  \<open>results[date]\<close> then use.
\<close>

fun dateText :: "jsval \<Rightarrow> string option" where
  "dateText (Str s) = Some s"
| "dateText (Arr [x]) = dateText x"
| "dateText v = None"

definition isDateFormat :: "string \<Rightarrow> bool" where
  "isDateFormat s =
     (case s of
        [y1, y2, y3, y4, h1, m1, m2, h2, d1, d2] \<Rightarrow>
          digits [y1, y2, y3, y4, m1, m2, d1, d2] \<noteq> None \<and> h1 = CHR ''-'' \<and> h2 = CHR ''-''
      | _ \<Rightarrow> False)"

text \<open>
  The loop over \<open>dates.slice(0, 100)\<close>; \<open>results\<close> is the object under construction, a
  list of properties in which a repeated date keeps its place and takes the new price.
\<close>

fun bulkLoop ::
  "clock \<Rightarrow> table \<Rightarrow> table \<Rightarrow> spot_cache \<Rightarrow> string \<Rightarrow> jsval list
    \<Rightarrow> (string \<times> jsval) list \<Rightarrow> error + (string \<times> jsval) list" where
  "bulkLoop getTime historicalGoldPrices historicalGoldSilverRatio spotPriceCache metalType
      [] results = Inr results"
| "bulkLoop getTime historicalGoldPrices historicalGoldSilverRatio spotPriceCache metalType
      (date # rest) results =
     (case dateText date of
        None \<Rightarrow>
          bulkLoop getTime historicalGoldPrices historicalGoldSilverRatio spotPriceCache
            metalType rest results
      | Some s \<Rightarrow>
          if isDateFormat s then
            (case getHistoricalPrice getTime historicalGoldPrices historicalGoldSilverRatio
                    spotPriceCache s (Str metalType) of
               Inl e \<Rightarrow> Inl e
             | Inr result \<Rightarrow>
                 bulkLoop getTime historicalGoldPrices historicalGoldSilverRatio
                   spotPriceCache metalType rest (AList.update s (price result) results))
          else
            bulkLoop getTime historicalGoldPrices historicalGoldSilverRatio spotPriceCache
              metalType rest results)"

text \<open>
  The answers of the endpoint: 400 with its message, 500 from the error handler when
  the handler throws, and 200 with \<open>metal\<close> and \<open>prices\<close>.
\<close>

datatype bulk_response =
    Status400 string
  | Status500
  | Status200 string "(string \<times> jsval) list"

definition historicalSpotBulk ::
  "clock \<Rightarrow> table \<Rightarrow> table \<Rightarrow> spot_cache \<Rightarrow> jsval \<Rightarrow> jsval \<Rightarrow> bulk_response" where
  "historicalSpotBulk getTime historicalGoldPrices historicalGoldSilverRatio spotPriceCache
      dates metal =
     (case dates of
        Arr ds \<Rightarrow>
          (case metalTypeOf metal of
             Inl e \<Rightarrow> Status500
           | Inr metalType \<Rightarrow>
               (case bulkLoop getTime historicalGoldPrices historicalGoldSilverRatio
                       spotPriceCache metalType (take 100 ds) [] of
                  Inl e \<Rightarrow> Status500
                | Inr results \<Rightarrow> Status200 metalType results))
      | _ \<Rightarrow> Status400 ''dates array required'')"

section \<open>ETF ratio calibration (backend/services/calibrateRatios.js)\<close>

text \<open>
  \<open>getCurrentETFQuotes\<close>, \<open>DEFAULT_SLV_RATIO\<close> and \<open>DEFAULT_GLD_RATIO\<close> come from the
  module \<open>etfPrices\<close>; the functions below take the outcome of the call and the two
  constants as parameters. The call either fails (it rejects, or gives no object at
  all, so that reading \<open>quotes.slv\<close> throws) or gives the two quotes, each of them
  missing (\<open>None\<close>) or an object with its \<open>price\<close>, a Number.
\<close>

datatype quotes_result = QuotesFailed | Quotes "number option" "number option"

record ratios =
  slvRatio :: number
  gldRatio :: number

record ratio_cache = ratios +
  date :: "string option"

record calibration = ratios +
  slvPrice :: number
  gldPrice :: number

text \<open>
  A row of the table \<open>etf_ratios\<close> behind the Supabase client, and the table: \<open>None\<close>
  when the client is \<open>null\<close> (no credentials), so that \<open>isSupabaseAvailable()\<close> is false.
\<close>

record etf_row =
  row_date :: string
  row_slv_ratio :: number
  row_gld_ratio :: number
  row_slv_price :: number
  row_gld_price :: number
  row_gold_spot :: number
  row_silver_spot :: number
  row_updated_at :: string

datatype log_line =
    QuoteFetchFailed
  | SaveFailed
  | Calibrated string
  | CalibrationError

record calib_state =
  ratioCache :: ratio_cache
  etf_ratios :: "etf_row list option"
  console :: "log_line list"

definition ratioCache_init :: "number \<Rightarrow> number \<Rightarrow> ratio_cache" where
  "ratioCache_init DEFAULT_SLV_RATIO DEFAULT_GLD_RATIO =
     \<lparr>slvRatio = DEFAULT_SLV_RATIO, gldRatio = DEFAULT_GLD_RATIO, date = None\<rparr>"

definition logged :: "log_line \<Rightarrow> calib_state \<Rightarrow> calib_state" where
  "logged l st = st\<lparr>console := console st @ [l]\<rparr>"

text \<open>
  \<open>upsert(row, { onConflict: 'date' })\<close> on the table: the row takes the place of the
  row of its date, or joins the table when its date is new.
\<close>

definition upsert :: "etf_row \<Rightarrow> etf_row list \<Rightarrow> etf_row list" where
  "upsert r rows =
     (if row_date r \<in> row_date ` set rows
      then map (\<lambda>x. if row_date x = row_date r then r else x) rows
      else rows @ [r])"

text \<open>
  \<open>calibrateRatios\<close>, from the outcome of the quotes call, today's date and the instant
  (both read from the clock as ISO text), whether the upsert request succeeds (the
  client answers a failed request with \<open>error\<close> set and stores nothing), and the state,
  to the returned value (\<open>null\<close> is \<open>None\<close>) and the state it leaves.
\<close>

definition calibrateRatios ::
  "quotes_result \<Rightarrow> string \<Rightarrow> string \<Rightarrow> bool \<Rightarrow> calib_state \<Rightarrow> number \<Rightarrow> number
    \<Rightarrow> calibration option \<times> calib_state" where
  "calibrateRatios quotes today clock upsertOk st currentGoldSpot currentSilverSpot =
     (case quotes of
        QuotesFailed \<Rightarrow> (None, logged CalibrationError st)
      | Quotes slv gld \<Rightarrow>
          (case (slv, gld) of
             (Some slvPrice', Some gldPrice') \<Rightarrow>
               (let slvRatio' = jsdiv slvPrice' currentSilverSpot;
                    gldRatio' = jsdiv gldPrice' currentGoldSpot;
                    st1 = st\<lparr>ratioCache :=
                            \<lparr>slvRatio = slvRatio', gldRatio = gldRatio', date = Some today\<rparr>\<rparr>;
                    st2 =
                      (case etf_ratios st1 of
                         None \<Rightarrow> st1
                       | Some rows \<Rightarrow>
                           if upsertOk then
                             st1\<lparr>etf_ratios := Some (upsert
                               \<lparr>row_date = today, row_slv_ratio = slvRatio',
                                row_gld_ratio = gldRatio', row_slv_price = slvPrice',
                                row_gld_price = gldPrice', row_gold_spot = currentGoldSpot,
                                row_silver_spot = currentSilverSpot,
                                row_updated_at = clock\<rparr> rows)\<rparr>
                           else logged SaveFailed st1)
                in (Some \<lparr>slvRatio = slvRatio', gldRatio = gldRatio',
                           slvPrice = slvPrice', gldPrice = gldPrice'\<rparr>,
                    logged (Calibrated today) st2))
           | _ \<Rightarrow> (None, logged QuoteFetchFailed st)))"

text \<open>
  The query of \<open>getRatioForDate\<close>:
  \<open>.lte('date', dateString).order('date', { ascending: false }).limit(1).single()\<close>,
  the rows dated on or before the given date, latest first, and the first of them;
  \<open>single()\<close> answers with an error when there is none. Dates are compared as the
  texts they are, which for dates written \<open>YYYY-MM-DD\<close> is the order of the calendar.
\<close>

definition latestOnOrBefore :: "string \<Rightarrow> etf_row list \<Rightarrow> etf_row option" where
  "latestOnOrBefore dateString rows =
     (case rev (sort_key row_date (filter (\<lambda>r. row_date r \<le> dateString) rows)) of
        [] \<Rightarrow> None
      | r # rest \<Rightarrow> Some r)"

record ratio_pair =
  slv_ratio :: number
  gld_ratio :: number

text \<open>
  \<open>getRatioForDate\<close>, with the two default ratios and whether the query request
  succeeds. The stored ratios are Numbers, which \<open>parseFloat\<close> gives back as they are.
\<close>

definition getRatioForDate ::
  "number \<Rightarrow> number \<Rightarrow> bool \<Rightarrow> calib_state \<Rightarrow> string \<Rightarrow> ratio_pair" where
  "getRatioForDate DEFAULT_SLV_RATIO DEFAULT_GLD_RATIO queryOk st dateString =
     (if date (ratioCache st) = Some dateString then
        \<lparr>slv_ratio = slvRatio (ratioCache st), gld_ratio = gldRatio (ratioCache st)\<rparr>
      else
        (case (case etf_ratios st of
                 None \<Rightarrow> None
               | Some rows \<Rightarrow> if queryOk then latestOnOrBefore dateString rows else None) of
           Some data \<Rightarrow> \<lparr>slv_ratio = row_slv_ratio data, gld_ratio = row_gld_ratio data\<rparr>
         | None \<Rightarrow> \<lparr>slv_ratio = DEFAULT_SLV_RATIO, gld_ratio = DEFAULT_GLD_RATIO\<rparr>))"

section \<open>The nearest-date lookup\<close>

text \<open>
  The loop of \<open>findNearestValue\<close> ends either in the state it began with or at an
  entry of the table with its distance, and no entry with a distance is nearer.
\<close>

lemma nearestStep_cases:
  "nearestStep tm tg st e = st \<or>
   (\<exists>d. nearestStep tm tg st e = (Some e, enat d) \<and> absDiff (tm (fst e)) tg = Some d)"
  by (auto simp: nearestStep_def split: option.splits)

lemma nearest_fold_shape:
  "foldl (nearestStep tm tg) st xs = st \<or>
   (\<exists>e\<in>set xs. \<exists>d. foldl (nearestStep tm tg) st xs = (Some e, enat d)
       \<and> absDiff (tm (fst e)) tg = Some d)"
proof (induction xs arbitrary: st)
  case Nil
  then show ?case by simp
next
  case (Cons x xs)
  from Cons.IH [of "nearestStep tm tg st x"] nearestStep_cases [of tm tg st x]
  show ?case by auto
qed

lemma nearestStep_le: "snd (nearestStep tm tg st e) \<le> snd st"
  by (auto simp: nearestStep_def split: option.splits)

lemma nearestStep_le_diff:
  "absDiff (tm (fst e)) tg = Some d \<Longrightarrow> snd (nearestStep tm tg st e) \<le> enat d"
  by (auto simp: nearestStep_def split: option.splits)

lemma nearest_fold_le: "snd (foldl (nearestStep tm tg) st xs) \<le> snd st"
proof (induction xs arbitrary: st)
  case Nil
  then show ?case by simp
next
  case (Cons x xs)
  have "snd (foldl (nearestStep tm tg) (nearestStep tm tg st x) xs)
          \<le> snd (nearestStep tm tg st x)"
    by (rule Cons.IH)
  also have "\<dots> \<le> snd st" by (rule nearestStep_le)
  finally show ?case by simp
qed

lemma nearest_fold_min:
  "e \<in> set xs \<Longrightarrow> absDiff (tm (fst e)) tg = Some d
     \<Longrightarrow> snd (foldl (nearestStep tm tg) st xs) \<le> enat d"
proof (induction xs arbitrary: st)
  case Nil
  then show ?case by simp
next
  case (Cons x xs)
  show ?case
  proof (cases "e = x")
    case True
    have "snd (foldl (nearestStep tm tg) (nearestStep tm tg st x) xs)
            \<le> snd (nearestStep tm tg st x)"
      by (rule nearest_fold_le)
    also have "\<dots> \<le> enat d"
      using Cons.prems True by (simp add: nearestStep_le_diff)
    finally show ?thesis by simp
  next
    case False
    with Cons.prems have "e \<in> set xs" by simp
    from Cons.IH [OF this Cons.prems(2)] show ?thesis by simp
  qed
qed


lemma findNearestValue_SomeD:
  assumes "findNearestValue tm tbl q = Some e"
  shows "e \<in> set tbl \<and>
         (\<exists>d. absDiff (tm (fst e)) (tm q) = Some d \<and> d \<le> 2592000000 \<and>
              (\<forall>e'\<in>set tbl. \<forall>d'. absDiff (tm (fst e')) (tm q) = Some d' \<longrightarrow> d \<le> d'))"
proof -
  let ?xs = "sort_key fst tbl"
  let ?r = "foldl (nearestStep tm (tm q)) (None, \<infinity>) ?xs"
  have set: "set ?xs = set tbl" by simp
  from assms have r: "snd ?r \<le> enat 2592000000" "fst ?r = Some e"
    by (auto simp: findNearestValue_def Let_def split: if_splits prod.splits)
  from nearest_fold_shape [of tm "tm q" "(None, \<infinity>)" ?xs] r
  obtain d where d: "e \<in> set ?xs" "?r = (Some e, enat d)" "absDiff (tm (fst e)) (tm q) = Some d"
    by auto
  from r d have "d \<le> 2592000000" by simp
  moreover have "d \<le> d'" if "e' \<in> set tbl" "absDiff (tm (fst e')) (tm q) = Some d'" for e' d'
  proof -
    from that set have "e' \<in> set ?xs" by simp
    from nearest_fold_min [of e' ?xs tm "tm q" d' "(None, \<infinity>)"] this that(2) d
    show ?thesis by simp
  qed
  ultimately show ?thesis using d set by blast
qed

lemma findNearestValue_None_iff:
  "findNearestValue tm tbl q = None \<longleftrightarrow>
     (\<forall>e\<in>set tbl. \<forall>d. absDiff (tm (fst e)) (tm q) = Some d \<longrightarrow> 2592000000 < d)"
proof
  let ?xs = "sort_key fst tbl"
  let ?r = "foldl (nearestStep tm (tm q)) (None, \<infinity>) ?xs"
  have set: "set ?xs = set tbl" by simp
  {
    assume none: "findNearestValue tm tbl q = None"
    show "\<forall>e\<in>set tbl. \<forall>d. absDiff (tm (fst e)) (tm q) = Some d \<longrightarrow> 2592000000 < d"
    proof (intro ballI allI impI)
      fix e d assume e: "e \<in> set tbl" and d: "absDiff (tm (fst e)) (tm q) = Some d"
      from e set have ex: "e \<in> set ?xs" by simp
      from e have "tbl \<noteq> []" by auto
      then have ne: "?xs \<noteq> []" by (metis length_sort length_0_conv)
      from nearest_fold_min [of e ?xs tm "tm q" d "(None, \<infinity>)"] ex d
      have le: "snd ?r \<le> enat d" by simp
      from nearest_fold_shape [of tm "tm q" "(None, \<infinity>)" ?xs] le
      obtain e0 d0 where r: "?r = (Some e0, enat d0)" by auto
      with none ne have "\<not> enat d0 \<le> enat 2592000000"
        by (auto simp: findNearestValue_def Let_def split: if_splits prod.splits)
      with le r show "2592000000 < d" by simp
    qed
  }
  {
    assume far: "\<forall>e\<in>set tbl. \<forall>d. absDiff (tm (fst e)) (tm q) = Some d \<longrightarrow> 2592000000 < d"
    show "findNearestValue tm tbl q = None"
    proof (cases "findNearestValue tm tbl q")
      case None
      then show ?thesis .
    next
      case (Some e)
      from findNearestValue_SomeD [OF Some] far show ?thesis by fastforce
    qed
  }
qed


lemma absDiff_Some_iff:
  "absDiff a b = Some n \<longleftrightarrow> (\<exists>x y. a = Some x \<and> b = Some y \<and> n = nat \<bar>x - y\<bar>)"
  by (cases a; cases b) auto

lemma isoDate_0419: "isoDate ''2024-04-19'' = Some 1713484800000" by code_simp
lemma isoDate_0519: "isoDate ''2024-05-19'' = Some 1716076800000" by code_simp
lemma isoDate_0520: "isoDate ''2024-05-20'' = Some 1716163200000" by code_simp

text \<open>
  Claim C3. For every table and every query date, \<open>findNearestValue\<close> returns no entry
  whose key is more than 30 days from the query date: an entry it returns is an entry
  of the table, both dates are read as dates, and they are at most 30 days (of
  86400000 ms) apart; and when every key that is a date is more than 30 days away, so
  in particular 31 days or more, it returns \<open>null\<close>.
\<close>

theorem findNearestValue_window:
  "(findNearestValue getTime dataObj targetDate = Some (k, v) \<longrightarrow>
      (k, v) \<in> set dataObj \<and>
      (\<exists>t tg. getTime k = Some t \<and> getTime targetDate = Some tg
         \<and> \<bar>t - tg\<bar> \<le> 30 * 86400000)) \<and>
   ((\<forall>(k', v') \<in> set dataObj. \<forall>t tg.
        getTime k' = Some t \<and> getTime targetDate = Some tg \<longrightarrow> 30 * 86400000 < \<bar>t - tg\<bar>)
     \<longrightarrow> findNearestValue getTime dataObj targetDate = None)"
proof (intro conjI impI)
  assume found: "findNearestValue getTime dataObj targetDate = Some (k, v)"
  from findNearestValue_SomeD [OF found]
  obtain n where "(k, v) \<in> set dataObj"
    and n: "absDiff (getTime k) (getTime targetDate) = Some n" "n \<le> 2592000000"
    by auto
  then show "(k, v) \<in> set dataObj" by simp
  from n obtain t tg where "getTime k = Some t" "getTime targetDate = Some tg"
    "n = nat \<bar>t - tg\<bar>"
    by (auto simp: absDiff_Some_iff)
  with n(2) show "\<exists>t tg. getTime k = Some t \<and> getTime targetDate = Some tg
         \<and> \<bar>t - tg\<bar> \<le> 30 * 86400000"
    by auto
next
  assume far: "\<forall>(k', v') \<in> set dataObj. \<forall>t tg.
        getTime k' = Some t \<and> getTime targetDate = Some tg \<longrightarrow> 30 * 86400000 < \<bar>t - tg\<bar>"
  show "findNearestValue getTime dataObj targetDate = None"
    unfolding findNearestValue_None_iff
  proof (intro ballI allI impI)
    fix e n assume e: "e \<in> set dataObj"
      and n: "absDiff (getTime (fst e)) (getTime targetDate) = Some n"
    from n obtain t tg where t: "getTime (fst e) = Some t" "getTime targetDate = Some tg"
      "n = nat \<bar>t - tg\<bar>"
      by (auto simp: absDiff_Some_iff)
    from far e t(1,2) have "30 * 86400000 < \<bar>t - tg\<bar>" by (cases e) auto
    with t(3) show "2592000000 < n" by simp
  qed
qed

theorem findNearestValue_window_witness:
  "findNearestValue isoDate [(''2024-04-19'', Fin 2391.5)] ''2024-05-19''
     = Some (''2024-04-19'', Fin 2391.5)
   \<and> (\<exists>t tg. isoDate ''2024-04-19'' = Some t \<and> isoDate ''2024-05-19'' = Some tg
         \<and> \<bar>t - tg\<bar> \<le> 30 * 86400000)
   \<and> findNearestValue isoDate [(''2024-04-19'', Fin 2391.5)] ''2024-05-20'' = None"
proof -
  have found: "findNearestValue isoDate [(''2024-04-19'', Fin 2391.5)] ''2024-05-19''
     = Some (''2024-04-19'', Fin 2391.5)"
    by (simp add: findNearestValue_def nearestStep_def isoDate_0419 isoDate_0519)
  have far: "\<forall>(k', v') \<in> set [(''2024-04-19'', Fin 2391.5)]. \<forall>t tg.
        isoDate k' = Some t \<and> isoDate ''2024-05-20'' = Some tg \<longrightarrow> 30 * 86400000 < \<bar>t - tg\<bar>"
    by (simp add: isoDate_0419 isoDate_0520)
  from findNearestValue_window [of isoDate "[(''2024-04-19'', Fin 2391.5)]" "''2024-05-19''"
      "''2024-04-19''" "Fin 2391.5"] found
    findNearestValue_window [of isoDate "[(''2024-04-19'', Fin 2391.5)]" "''2024-05-20''"] far
  show ?thesis by blast
qed

section \<open>Exact historical prices\<close>

lemma metalTypeOf_silver: "metalTypeOf (Str ''silver'') = Inr ''silver''"
  by code_simp

lemma metalTypeOf_gold: "metalTypeOf (Str ''gold'') = Inr ''gold''"
  by code_simp

lemma toFixed2_grid: "\<exists>n::int. toFixed2 x = of_int n / 100"
  by (auto simp: toFixed2_def intro: exI [of _ "- \<lfloor>- x * 100 + 1 / 2\<rfloor>"])

lemma toFixed2_near: "\<bar>toFixed2 x - x\<bar> \<le> 1 / 200"
proof -
  have up: "\<bar>of_int \<lfloor>y * 100 + 1 / 2\<rfloor> / 100 - y\<bar> \<le> 1 / 200" for y :: rat
  proof -
    define f :: rat where "f = of_int \<lfloor>y * 100 + 1 / 2\<rfloor>"
    have "f \<le> y * 100 + 1 / 2" and "y * 100 + 1 / 2 < f + 1"
      unfolding f_def by linarith+
    then have "f / 100 - y \<le> 1 / 200" and "- (1 / 200) \<le> f / 100 - y" by linarith+
    then have "\<bar>f / 100 - y\<bar> \<le> 1 / 200" by linarith
    then show ?thesis by (simp only: f_def)
  qed
  show ?thesis
  proof (cases "x < 0")
    case True
    define F :: rat where "F = of_int \<lfloor>- x * 100 + 1 / 2\<rfloor>"
    from up [of "- x"] have "\<bar>F / 100 - (- x)\<bar> \<le> 1 / 200" unfolding F_def .
    then have "\<bar>- (F / 100) - x\<bar> \<le> 1 / 200" by linarith
    moreover have "toFixed2 x = - (F / 100)"
      using True by (simp only: toFixed2_def F_def if_True)
    ultimately show ?thesis by (simp only:)
  next
    case False
    then have "toFixed2 x = of_int \<lfloor>x * 100 + 1 / 2\<rfloor> / 100"
      by (simp only: toFixed2_def if_False)
    with up [of x] show ?thesis by (simp only:)
  qed
qed

text \<open>The rounding to a double is accurate: exponent is the binary exponent of a
  positive rational, nearestDouble is within half a unit in the last place, and in the
  normal range a finite double has relative error at most 1 / 2 ^ 53.\<close>

lemma roundHalfEven_near: "\<bar>of_int (roundHalfEven y) - y\<bar> \<le> 1 / 2"
proof -
  define m where "m = \<lfloor>y\<rfloor>"
  have "of_int m \<le> y" "y < of_int m + 1" unfolding m_def by linarith+
  then show ?thesis
    unfolding roundHalfEven_def Let_def m_def [symmetric]
    by (auto simp: abs_le_iff)
qed

lemma exponent_bounds:
  assumes "0 < a"
  shows "2 powi exponent a \<le> a \<and> a < 2 powi (exponent a + 1)"
proof (cases "1 \<le> a")
  case True
  define n where "n = \<lfloor>a\<rfloor>"
  from True have n: "0 < n" unfolding n_def by linarith
  have na: "of_int n \<le> a" "a < of_int n + 1" unfolding n_def by linarith+
  from n have b1: "1 \<le> bitlen n" by (auto simp: bitlen_alt_def)
  from bitlen_bounds [OF n]
  have lo: "2 ^ nat (bitlen n - 1) \<le> n" and hi: "n < 2 ^ nat (bitlen n)" by simp_all
  from True have e: "exponent a = bitlen n - 1" by (simp add: exponent_def n_def)
  have "(2::rat) powi (bitlen n - 1) = 2 ^ nat (bitlen n - 1)"
    using b1 by (simp add: power_int_def)
  also have "\<dots> = of_int (2 ^ nat (bitlen n - 1))" by simp
  also have "\<dots> \<le> of_int n" using lo by (simp only: of_int_le_iff)
  finally have 1: "2 powi (bitlen n - 1) \<le> a" using na by linarith
  from hi have "n + 1 \<le> 2 ^ nat (bitlen n)" by linarith
  then have "(of_int (n + 1) :: rat) \<le> of_int (2 ^ nat (bitlen n))"
    by (simp only: of_int_le_iff)
  then have "of_int n + 1 \<le> (2::rat) ^ nat (bitlen n)" by simp
  moreover have "(2::rat) powi (bitlen n - 1 + 1) = 2 ^ nat (bitlen n)"
    using b1 by (simp add: power_int_def)
  ultimately have 2: "a < 2 powi (bitlen n - 1 + 1)" using na by linarith
  from 1 2 e show ?thesis by simp
next
  case False
  define b where "b = 1 / a"
  define c where "c = \<lceil>b\<rceil>"
  from False assms have b1: "1 < b" unfolding b_def by simp
  then have c2: "2 \<le> c" unfolding c_def by linarith
  have cb: "b \<le> of_int c" "of_int c - 1 < b" unfolding c_def by linarith+
  define k where "k = bitlen (c - 1)"
  from c2 have pos: "0 < c - 1" by simp
  then have k1: "1 \<le> k" unfolding k_def by (auto simp: bitlen_alt_def)
  from bitlen_bounds [OF pos]
  have lo: "2 ^ nat (k - 1) \<le> c - 1" and hi: "c - 1 < 2 ^ nat k"
    unfolding k_def by simp_all
  from False have e: "exponent a = - k" by (simp add: exponent_def k_def c_def b_def)
  from hi have "c \<le> 2 ^ nat k" by linarith
  then have "(of_int c :: rat) \<le> of_int (2 ^ nat k)" by (simp only: of_int_le_iff)
  then have "(of_int c :: rat) \<le> 2 ^ nat k" by simp
  then have "b \<le> 2 ^ nat k" using cb by linarith
  then have "1 / a \<le> 2 ^ nat k" by (simp only: b_def)
  with assms have "1 \<le> 2 ^ nat k * a" by (simp add: field_simps)
  then have "1 / 2 ^ nat k \<le> a" by (simp add: field_simps)
  moreover have "(2::rat) powi (- k) = 1 / 2 ^ nat k"
    using k1 by (simp add: power_int_def field_simps)
  ultimately have 1: "2 powi (- k) \<le> a" by simp
  from lo have "(of_int (2 ^ nat (k - 1)) :: rat) \<le> of_int (c - 1)"
    by (simp only: of_int_le_iff)
  then have "(2::rat) ^ nat (k - 1) \<le> of_int c - 1" by simp
  then have "(2::rat) ^ nat (k - 1) < b" using cb by linarith
  then have "2 ^ nat (k - 1) < 1 / a" by (simp only: b_def)
  with assms have "2 ^ nat (k - 1) * a < 1" by (simp add: field_simps)
  then have "a < 1 / 2 ^ nat (k - 1)" by (simp add: field_simps)
  moreover have "(2::rat) powi (- k + 1) = 1 / 2 ^ nat (k - 1)"
  proof (cases "k = 1")
    case True
    then show ?thesis by simp
  next
    case False
    with k1 have "- k + 1 < 0" by simp
    then have "(2::rat) powi (- k + 1) = inverse (2 ^ nat (- (- k + 1)))"
      by (simp add: power_int_def power_one_over inverse_eq_divide)
    moreover have "nat (- (- k + 1)) = nat (k - 1)" by simp
    ultimately show ?thesis by (simp add: field_simps)
  qed
  ultimately have 2: "a < 2 powi (- k + 1)" by simp
  from 1 2 e show ?thesis by simp
qed

lemma quantum_pos: "0 < quantum a"
  by (simp add: quantum_def)

lemma nearestDouble_near:
  "\<bar>nearestDouble a - a\<bar> \<le> quantum a / 2"
proof -
  define u where "u = quantum a"
  have u: "0 < u" unfolding u_def by (rule quantum_pos)
  define m :: rat where "m = of_int (roundHalfEven (a / u))"
  have "\<bar>m - a / u\<bar> \<le> 1 / 2" unfolding m_def by (rule roundHalfEven_near)
  then have "\<bar>m - a / u\<bar> * u \<le> 1 / 2 * u" using u by (simp only: mult_le_cancel_right_pos)
  moreover have "\<bar>m - a / u\<bar> * u = \<bar>m * u - a\<bar>"
  proof -
    have "\<bar>m - a / u\<bar> * u = \<bar>m - a / u\<bar> * \<bar>u\<bar>" using u by simp
    also have "\<dots> = \<bar>(m - a / u) * u\<bar>" by (simp only: abs_mult)
    also have "(m - a / u) * u = m * u - a" using u by (simp add: field_simps)
    finally show ?thesis .
  qed
  ultimately have "\<bar>m * u - a\<bar> \<le> u / 2" by simp
  then show ?thesis by (simp only: nearestDouble_def m_def u_def)
qed

lemma quantum_normal:
  assumes "2 powi (- 1022) \<le> a"
  shows "quantum a \<le> a / 2 ^ 52"
proof -
  have pos: "0 < a" using assms by (rule less_le_trans [rotated]) simp
  from exponent_bounds [OF pos]
  have lo: "2 powi exponent a \<le> a" and hi: "a < 2 powi (exponent a + 1)" by simp_all
  from assms hi have "(2::rat) powi (- 1022) < 2 powi (exponent a + 1)" by linarith
  then have "- 1022 < exponent a + 1"
    using power_int_increasing [of "exponent a + 1" "- 1022" "2::rat"] by (cases "- 1022 < exponent a + 1") auto
  then have "max (exponent a) (- 1022) = exponent a" by simp
  then have "quantum a = 2 powi (exponent a - 52)" by (simp add: quantum_def)
  also have "\<dots> = 2 powi exponent a / 2 ^ 52"
    by (simp add: power_int_diff)
  also have "\<dots> \<le> a / 2 ^ 52" using lo by (simp add: divide_right_mono)
  finally show ?thesis .
qed

lemma double_near:
  assumes "double x = Fin q" and "2 powi (- 1022) \<le> \<bar>x\<bar>"
  shows "\<bar>q - x\<bar> \<le> \<bar>x\<bar> / 2 ^ 53"
proof -
  from assms(2) have nz: "x \<noteq> 0" by auto
  from nearestDouble_near [of "\<bar>x\<bar>"] quantum_normal [OF assms(2)]
  have near: "\<bar>nearestDouble \<bar>x\<bar> - \<bar>x\<bar>\<bar> \<le> \<bar>x\<bar> / 2 ^ 53" by simp
  from assms(1) nz have q: "q = (if 0 < x then nearestDouble \<bar>x\<bar> else - nearestDouble \<bar>x\<bar>)"
    by (simp add: double_def split: if_splits)
  show ?thesis
  proof (cases "0 < x")
    case True
    with q near show ?thesis by simp
  next
    case False
    with q have "q - x = - (nearestDouble \<bar>x\<bar> - \<bar>x\<bar>)" by simp
    then have "\<bar>q - x\<bar> = \<bar>nearestDouble \<bar>x\<bar> - \<bar>x\<bar>\<bar>" by (simp only: abs_minus)
    with near show ?thesis by simp
  qed
qed

text \<open>Evaluating the rounding to a double, the division and the rounding to cents.\<close>

lemma double_pos:
  "0 < x \<Longrightarrow> nearestDouble x = r \<Longrightarrow> r < 2 ^ 1024 \<Longrightarrow> double x = Fin r"
  by (simp add: double_def)

lemma representable_pos:
  "0 < x \<Longrightarrow> nearestDouble x = x \<Longrightarrow> x < 2 ^ 1024 \<Longrightarrow> representable (Fin x)"
  by (simp add: double_def)

lemma jsdiv_Fin: "b \<noteq> 0 \<Longrightarrow> jsdiv (Fin a) (Fin b) = double (a / b)"
  by simp

lemma representable_2391: "representable (Fin 2391.50)"
proof -
  have "(0::rat) < 2391.50" "nearestDouble 2391.50 = 2391.50" "(2391.50::rat) < 2 ^ 1024"
    by code_simp+
  then show ?thesis by (rule representable_pos)
qed

lemma representable_2006: "representable (Fin 2006)"
proof -
  have "(0::rat) < 2006" "nearestDouble 2006 = 2006" "(2006::rat) < 2 ^ 1024"
    by code_simp+
  then show ?thesis by (rule representable_pos)
qed

lemma representable_2000: "representable (Fin 2000)"
proof -
  have "(0::rat) < 2000" "nearestDouble 2000 = 2000" "(2000::rat) < 2 ^ 1024"
    by code_simp+
  then show ?thesis by (rule representable_pos)
qed

lemma representable_80: "representable (Fin 80)"
proof -
  have "(0::rat) < 80" "nearestDouble 80 = 80" "(80::rat) < 2 ^ 1024"
    by code_simp+
  then show ?thesis by (rule representable_pos)
qed

lemma representable_64: "representable (Fin 64)"
proof -
  have "(0::rat) < 64" "nearestDouble 64 = 64" "(64::rat) < 2 ^ 1024"
    by code_simp+
  then show ?thesis by (rule representable_pos)
qed

lemma representable_845: "representable (Fin 84.5)"
proof -
  have "(0::rat) < 84.5" "nearestDouble 84.5 = 84.5" "(84.5::rat) < 2 ^ 1024"
    by code_simp+
  then show ?thesis by (rule representable_pos)
qed

lemma parseFloat_toFixed2_Fin:
  "\<bar>q\<bar> < 10 ^ 21 \<Longrightarrow> parseFloat_toFixed2 (Fin q) = double (toFixed2 q)"
  by simp

lemma cents_of_double:
  assumes "double x = Fin q" and "\<bar>q\<bar> < 10 ^ 21" and "toFixed2 q = p"
  shows "parseFloat_toFixed2 (double x) = double p"
proof -
  from assms(1) have "parseFloat_toFixed2 (double x) = parseFloat_toFixed2 (Fin q)"
    by (simp only:)
  also from assms(2) have "\<dots> = double (toFixed2 q)" by (rule parseFloat_toFixed2_Fin)
  finally show ?thesis using assms(3) by (simp only:)
qed

lemma rounded_quotient:
  assumes "b \<noteq> 0" and "double (a / b) = Fin q" and "\<bar>q\<bar> < 10 ^ 21" and "toFixed2 q = p"
  shows "parseFloat_toFixed2 (jsdiv (Fin a) (Fin b)) = double p"
proof -
  from assms(1) have "jsdiv (Fin a) (Fin b) = double (a / b)" by (rule jsdiv_Fin)
  with cents_of_double [OF assms(2-4)] show ?thesis by (simp only:)
qed

lemma silver_exact_general:
  assumes "map_of G d = Some (Fin g)" "g \<noteq> 0" "map_of R d = Some (Fin r)" "r \<noteq> 0"
  shows "getHistoricalPrice tm G R c d (Str ''silver'') =
           Inr \<lparr>price = Number (parseFloat_toFixed2 (double (g / r))), source = ''exact'',
                explanation = ''Calculated from exact gold price and gold/silver ratio''\<rparr>"
  using assms
  by (simp add: getHistoricalPrice_def metalTypeOf_silver resolveHistorical_def
      del: parseFloat_toFixed2.simps)

lemma gold_exact_general:
  assumes "map_of G d = Some (Fin g)" "0 < g"
  shows "getHistoricalPrice tm G R c d (Str ''gold'') =
           Inr \<lparr>price = Number (Fin g), source = ''exact'',
                explanation = ''Exact daily price from freegoldapi.com''\<rparr>"
  using assms
  by (simp add: getHistoricalPrice_def metalTypeOf_gold resolveHistorical_def)

lemma quotient_0419:
  "double (2391.50 / 84.5) = Fin (124472523447399 / 4398046511104)"
proof -
  have "(0::rat) < 2391.50 / 84.5" by code_simp
  moreover have "nearestDouble (2391.50 / 84.5) = 124472523447399 / 4398046511104"
    by code_simp
  moreover have "(124472523447399 / 4398046511104 :: rat) < 2 ^ 1024" by code_simp
  ultimately show ?thesis by (rule double_pos)
qed

lemma cents_0419:
  "\<bar>124472523447399 / 4398046511104 :: rat\<bar> < 10 ^ 21"
  "toFixed2 (124472523447399 / 4398046511104) = 28.30"
  by code_simp+

lemma quotient_2006:
  "double (2006 / 80) = Fin (7057985041019699 / 281474976710656)"
proof -
  have "(0::rat) < 2006 / 80" by code_simp
  moreover have "nearestDouble (2006 / 80) = 7057985041019699 / 281474976710656"
    by code_simp
  moreover have "(7057985041019699 / 281474976710656 :: rat) < 2 ^ 1024" by code_simp
  ultimately show ?thesis by (rule double_pos)
qed

lemma cents_2006:
  "\<bar>7057985041019699 / 281474976710656 :: rat\<bar> < 10 ^ 21"
  "toFixed2 (7057985041019699 / 281474976710656) = 25.07"
  by code_simp+

text \<open>
  Claim C1. For every date that has an exact gold record and an exact ratio record (a
  finite Number other than zero each, as the truth tests of the code require, and a
  double, as every Number is),
  \<open>getHistoricalPrice(d, 'silver')\<close> returns the source \<open>exact\<close> and as price gold
  divided by ratio, rounded to two decimal places: the quotient is the double that the
  division gives, and when it is finite and below 1e21 the price is the double read
  from a multiple of 1/100 at most 1/200 away from that quotient. In particular, with
  gold 2391.50 and ratio 84.5 stored for 2024-04-19 the price is 28.30.
\<close>

theorem silver_exact:
  "(map_of G d = Some (Fin g) \<and> g \<noteq> 0 \<and> representable (Fin g)
      \<and> map_of R d = Some (Fin r) \<and> r \<noteq> 0 \<and> representable (Fin r) \<longrightarrow>
      getHistoricalPrice getTime G R spotPriceCache d (Str ''silver'') =
        Inr \<lparr>price = Number (parseFloat_toFixed2 (jsdiv (Fin g) (Fin r))), source = ''exact'',
             explanation = ''Calculated from exact gold price and gold/silver ratio''\<rparr>
      \<and> jsdiv (Fin g) (Fin r) = double (g / r)
      \<and> (\<forall>q. double (g / r) = Fin q \<and> \<bar>q\<bar> < 10 ^ 21 \<longrightarrow>
            parseFloat_toFixed2 (jsdiv (Fin g) (Fin r)) = double (toFixed2 q)
            \<and> (\<exists>n::int. toFixed2 q = of_int n / 100)
            \<and> \<bar>toFixed2 q - q\<bar> \<le> 1 / 200))
   \<and> getHistoricalPrice getTime [(''2024-04-19'', Fin 2391.50)] [(''2024-04-19'', Fin 84.5)]
         spotPriceCache ''2024-04-19'' (Str ''silver'') =
        Inr \<lparr>price = Number (double 28.30), source = ''exact'',
             explanation = ''Calculated from exact gold price and gold/silver ratio''\<rparr>"
proof (intro conjI impI allI)
  assume a: "map_of G d = Some (Fin g) \<and> g \<noteq> 0 \<and> representable (Fin g)
      \<and> map_of R d = Some (Fin r) \<and> r \<noteq> 0 \<and> representable (Fin r)"
  then have g: "map_of G d = Some (Fin g)" "g \<noteq> 0" "map_of R d = Some (Fin r)" "r \<noteq> 0"
    by blast+
  then have div: "jsdiv (Fin g) (Fin r) = double (g / r)" by (intro jsdiv_Fin)
  then show "jsdiv (Fin g) (Fin r) = double (g / r)" .
  have "getHistoricalPrice getTime G R spotPriceCache d (Str ''silver'') =
        Inr \<lparr>price = Number (parseFloat_toFixed2 (double (g / r))), source = ''exact'',
             explanation = ''Calculated from exact gold price and gold/silver ratio''\<rparr>"
    by (rule silver_exact_general [OF g])
  then show "getHistoricalPrice getTime G R spotPriceCache d (Str ''silver'') =
        Inr \<lparr>price = Number (parseFloat_toFixed2 (jsdiv (Fin g) (Fin r))), source = ''exact'',
             explanation = ''Calculated from exact gold price and gold/silver ratio''\<rparr>"
    by (simp only: div)
  fix q assume q: "double (g / r) = Fin q \<and> \<bar>q\<bar> < 10 ^ 21"
  then have "parseFloat_toFixed2 (double (g / r)) = double (toFixed2 q)"
    by (intro cents_of_double [where q = q]) simp_all
  with div show "parseFloat_toFixed2 (jsdiv (Fin g) (Fin r)) = double (toFixed2 q)"
    by (simp only:)
  show "\<exists>n::int. toFixed2 q = of_int n / 100" by (rule toFixed2_grid)
  show "\<bar>toFixed2 q - q\<bar> \<le> 1 / 200" by (rule toFixed2_near)
next
  have "getHistoricalPrice getTime [(''2024-04-19'', Fin 2391.50)] [(''2024-04-19'', Fin 84.5)]
         spotPriceCache ''2024-04-19'' (Str ''silver'') =
        Inr \<lparr>price = Number (parseFloat_toFixed2 (double (2391.50 / 84.5))),
             source = ''exact'',
             explanation = ''Calculated from exact gold price and gold/silver ratio''\<rparr>"
    by (rule silver_exact_general) simp_all
  then show "getHistoricalPrice getTime [(''2024-04-19'', Fin 2391.50)]
         [(''2024-04-19'', Fin 84.5)] spotPriceCache ''2024-04-19'' (Str ''silver'') =
        Inr \<lparr>price = Number (double 28.30), source = ''exact'',
             explanation = ''Calculated from exact gold price and gold/silver ratio''\<rparr>"
    by (simp only: cents_of_double [OF quotient_0419 cents_0419])
qed

theorem silver_exact_witness:
  "getHistoricalPrice isoDate [(''2020-01-02'', Fin 2006)] [(''2020-01-02'', Fin 80)]
      spotPriceCache_init ''2020-01-02'' (Str ''silver'') =
     Inr \<lparr>price = Number (double 25.07), source = ''exact'',
          explanation = ''Calculated from exact gold price and gold/silver ratio''\<rparr>"
proof -
  let ?G = "[(''2020-01-02'', Fin 2006)]" and ?R = "[(''2020-01-02'', Fin 80)]"
  have hyp: "map_of ?G ''2020-01-02'' = Some (Fin 2006) \<and> (2006::rat) \<noteq> 0
      \<and> representable (Fin 2006)
      \<and> map_of ?R ''2020-01-02'' = Some (Fin 80) \<and> (80::rat) \<noteq> 0
      \<and> representable (Fin 80)"
    using representable_2006 representable_80 by simp
  have q: "double (2006 / 80) = Fin (7057985041019699 / 281474976710656)
      \<and> \<bar>7057985041019699 / 281474976710656 :: rat\<bar> < 10 ^ 21"
    using quotient_2006 cents_2006(1) by (rule conjI)
  from silver_exact [of ?G "''2020-01-02''" 2006 ?R 80 isoDate spotPriceCache_init] hyp q
  have "getHistoricalPrice isoDate ?G ?R spotPriceCache_init ''2020-01-02'' (Str ''silver'') =
        Inr \<lparr>price = Number (parseFloat_toFixed2 (jsdiv (Fin 2006) (Fin 80))),
             source = ''exact'',
             explanation = ''Calculated from exact gold price and gold/silver ratio''\<rparr>"
    and "parseFloat_toFixed2 (jsdiv (Fin 2006) (Fin 80)) =
          double (toFixed2 (7057985041019699 / 281474976710656))"
    by blast+
  then show ?thesis by (simp only: cents_2006)
qed

text \<open>
  Claim C4. For every date for which the gold table holds a positive price,
  \<open>getHistoricalPrice(d, 'gold')\<close> returns the source \<open>exact\<close> and the stored value
  itself as price.
\<close>

theorem gold_exact:
  assumes "map_of G d = Some (Fin g)" and "0 < g"
  shows "getHistoricalPrice getTime G R spotPriceCache d (Str ''gold'') =
           Inr \<lparr>price = Number (Fin g), source = ''exact'',
                explanation = ''Exact daily price from freegoldapi.com''\<rparr>"
  using assms by (rule gold_exact_general)

theorem gold_exact_witness:
  "getHistoricalPrice isoDate [(''2024-04-19'', Fin 2391.50)] [] spotPriceCache_init
      ''2024-04-19'' (Str ''gold'') =
     Inr \<lparr>price = Number (Fin 2391.50), source = ''exact'',
          explanation = ''Exact daily price from freegoldapi.com''\<rparr>"
  using gold_exact [of "[(''2024-04-19'', Fin 2391.50)]" "''2024-04-19''" "2391.50"
      isoDate "[]" spotPriceCache_init]
  by simp

section \<open>The fallback tier and the spot cache\<close>

text \<open>
  The handler of \<open>/api/spot-prices\<close> stores a pair of prices only when both are truthy,
  so a cache that holds two truthy prices keeps holding two through every request.
\<close>

lemma liveSpot_truthy: "liveSpot fetched = Some (s, g) \<Longrightarrow> truthy s \<and> truthy g"
  by (auto simp: liveSpot_def split: fetch_result.splits option.splits sum.splits if_splits)

lemma spotPrices_populated:
  assumes "truthy (silver c)" and "truthy (gold c)"
  shows "truthy (silver (snd (spotPrices c now fetched clock)))
       \<and> truthy (gold (snd (spotPrices c now fetched clock)))"
proof (cases "liveSpot fetched")
  case None
  with assms show ?thesis by (simp add: spotPrices_def)
next
  case (Some sg)
  obtain s g where sg: "sg = (s, g)" by (cases sg)
  with Some liveSpot_truthy [of fetched s g] have "truthy s \<and> truthy g" by simp
  with assms Some sg show ?thesis by (simp add: spotPrices_def)
qed

lemma served_populated:
  "truthy (silver c) \<Longrightarrow> truthy (gold c)
     \<Longrightarrow> truthy (silver (served c reqs)) \<and> truthy (gold (served c reqs))"
proof (induction reqs arbitrary: c)
  case Nil
  then show ?case by simp
next
  case (Cons req reqs)
  obtain now fetched clock where req: "req = (now, fetched, clock)" by (cases req)
  from spotPrices_populated [OF Cons.prems, of now fetched clock]
  have "truthy (silver (snd (spotPrices c now fetched clock)))"
    and "truthy (gold (snd (spotPrices c now fetched clock)))" by simp_all
  from Cons.IH [OF this] req show ?case by simp
qed

lemma fallback_general:
  assumes "\<not> truthyProp (map_of G d)" and "findNearestValue getTime G d = None"
  shows "resolveHistorical getTime G R c d m =
           \<lparr>price = (if m = ''silver'' then silver c else gold c), source = ''fallback'',
            explanation = ''Historical data unavailable - using current price''\<rparr>"
  using assms by (simp add: resolveHistorical_def)

text \<open>
  Claim C5. For the metals \<open>gold\<close> and \<open>silver\<close> and every date, \<open>getHistoricalPrice\<close>
  returns a result and does not throw; when the gold table has neither an exact record
  for the date nor a record within 30 days, the result is the price of that metal in
  the spot cache, tagged \<open>fallback\<close>. The cache is seeded with silver 30.50 and gold
  2650.00, and after any run of requests to \<open>/api/spot-prices\<close> both of its prices are
  still truthy, so the fallback always has a value to return.
\<close>

theorem getHistoricalPrice_total:
  "(m = ''gold'' \<or> m = ''silver'' \<longrightarrow>
      (\<exists>res. getHistoricalPrice getTime G R spotPriceCache d (Str m) = Inr res) \<and>
      (\<not> truthyProp (map_of G d) \<and> findNearestValue getTime G d = None \<longrightarrow>
         getHistoricalPrice getTime G R spotPriceCache d (Str m) =
           Inr \<lparr>price = (if m = ''silver'' then silver spotPriceCache
                          else gold spotPriceCache),
                source = ''fallback'',
                explanation = ''Historical data unavailable - using current price''\<rparr>))
   \<and> silver spotPriceCache_init = Number (Fin 30.50)
   \<and> gold spotPriceCache_init = Number (Fin 2650.00)
   \<and> truthy (silver (served spotPriceCache_init reqs))
   \<and> truthy (gold (served spotPriceCache_init reqs))"
proof -
  have mt: "metalTypeOf (Str m) = Inr m" if "m = ''gold'' \<or> m = ''silver''"
    using that metalTypeOf_gold metalTypeOf_silver by auto
  have total: "\<exists>res. getHistoricalPrice getTime G R spotPriceCache d (Str m) = Inr res"
    if "m = ''gold'' \<or> m = ''silver''"
    using mt [OF that] by (simp add: getHistoricalPrice_def)
  have fb: "getHistoricalPrice getTime G R spotPriceCache d (Str m) =
           Inr \<lparr>price = (if m = ''silver'' then silver spotPriceCache
                          else gold spotPriceCache),
                source = ''fallback'',
                explanation = ''Historical data unavailable - using current price''\<rparr>"
    if "m = ''gold'' \<or> m = ''silver''"
      and "\<not> truthyProp (map_of G d) \<and> findNearestValue getTime G d = None"
    using mt [OF that(1)] that(2) fallback_general [of G d getTime R spotPriceCache m]
    by (simp add: getHistoricalPrice_def)
  have seeds: "silver spotPriceCache_init = Number (Fin 30.50)"
    "gold spotPriceCache_init = Number (Fin 2650.00)"
    by (simp_all add: spotPriceCache_init_def)
  then have "truthy (silver spotPriceCache_init)" "truthy (gold spotPriceCache_init)"
    by simp_all
  from served_populated [OF this, of reqs] total fb seeds show ?thesis by blast
qed

theorem getHistoricalPrice_total_witness:
  "getHistoricalPrice isoDate [(''2024-04-19'', Fin 2391.50)] [] spotPriceCache_init
      ''2024-06-30'' (Str ''gold'') =
     Inr \<lparr>price = Number (Fin 2650), source = ''fallback'',
          explanation = ''Historical data unavailable - using current price''\<rparr>
   \<and> truthy (gold (served spotPriceCache_init
         [(1000, FetchFailed, 1001),
          (2000, Response True (Some (Obj [(''silver'', Number (Fin 31)),
                                            (''gold'', Number (Fin 2700))])), 2002)]))"
proof -
  have far: "findNearestValue isoDate [(''2024-04-19'', Fin 2391.50)] ''2024-06-30'' = None"
    by (simp add: findNearestValue_def nearestStep_def isoDate_0419 isoDate_def digit_def
        daysFromCivil_def)
  have "\<not> truthyProp (map_of [(''2024-04-19'', Fin 2391.50)] ''2024-06-30'')" by simp
  with far getHistoricalPrice_total [of "''gold''" isoDate "[(''2024-04-19'', Fin 2391.50)]"
      "[]" spotPriceCache_init "''2024-06-30''"
      "[(1000, FetchFailed, 1001),
          (2000, Response True (Some (Obj [(''silver'', Number (Fin 31)),
                                            (''gold'', Number (Fin 2700))])), 2002)]"]
  show ?thesis by (simp add: spotPriceCache_init_def)
qed

section \<open>Silver prices derived from nearby data\<close>

lemma findNearestValue_found:
  assumes "\<exists>e\<in>set tbl. within30 tm q (fst e)"
  shows "\<exists>e. findNearestValue tm tbl q = Some e \<and> nearestIn tm tbl q e"
proof (cases "findNearestValue tm tbl q")
  case None
  with assms show ?thesis unfolding findNearestValue_None_iff by fastforce
next
  case (Some e)
  from findNearestValue_SomeD [OF Some] Some show ?thesis by simp
qed

lemma findNearestValue_missing:
  assumes "\<not> (\<exists>e\<in>set tbl. within30 tm q (fst e))"
  shows "findNearestValue tm tbl q = None"
  unfolding findNearestValue_None_iff using assms by fastforce

lemma silver_gold_exact_general:
  assumes "map_of G d = Some (Fin g)" "g \<noteq> 0" "\<not> truthyProp (map_of R d)"
  shows "getHistoricalPrice tm G R c d (Str ''silver'') =
     Inr (case findNearestValue tm R d of
        Some nearestRatio \<Rightarrow>
          \<lparr>price = Number (parseFloat_toFixed2 (jsdiv (Fin g) (snd nearestRatio))),
           source = ''interpolated'',
           explanation = ''Gold price exact, ratio from '' @ fst nearestRatio\<rparr>
      | None \<Rightarrow>
          \<lparr>price = Number (parseFloat_toFixed2 (jsdiv (Fin g) (Fin 80))),
           source = ''estimated'',
           explanation = ''Calculated from gold price with estimated ratio''\<rparr>)"
  using assms
  by (simp add: getHistoricalPrice_def metalTypeOf_silver resolveHistorical_def
      del: jsdiv.simps parseFloat_toFixed2.simps split: option.splits)

lemma silver_gold_nearest_general:
  assumes "\<not> truthyProp (map_of G d)" "findNearestValue tm G d = Some nearestGold"
  shows "getHistoricalPrice tm G R c d (Str ''silver'') =
     Inr \<lparr>price = Number (parseFloat_toFixed2 (jsdiv (snd nearestGold)
               (case findNearestValue tm R d of
                  Some nearestRatio \<Rightarrow> snd nearestRatio | None \<Rightarrow> Fin 80))),
          source = ''interpolated'',
          explanation = ''Estimated from '' @ fst nearestGold @ '' gold price''\<rparr>"
  using assms
  by (simp add: getHistoricalPrice_def metalTypeOf_silver resolveHistorical_def
      del: jsdiv.simps parseFloat_toFixed2.simps)

lemma isoDate_0420: "isoDate ''2024-04-20'' = Some 1713571200000" by code_simp

lemma double_2830: "double 28.30 = Fin (7965741840911565 / 281474976710656)"
proof -
  have "(0::rat) < 28.30" by code_simp
  moreover have "nearestDouble 28.30 = 7965741840911565 / 281474976710656" by code_simp
  moreover have "(7965741840911565 / 281474976710656 :: rat) < 2 ^ 1024" by code_simp
  ultimately show ?thesis by (rule double_pos)
qed

lemma quotient_2000_64: "double (2000 / 64) = Fin 31.25"
proof -
  have "(0::rat) < 2000 / 64" by code_simp
  moreover have "nearestDouble (2000 / 64) = 31.25" by code_simp
  moreover have "(31.25 :: rat) < 2 ^ 1024" by code_simp
  ultimately show ?thesis by (rule double_pos)
qed

lemma cents_2000_64: "\<bar>31.25 :: rat\<bar> < 10 ^ 21" "toFixed2 31.25 = 31.25"
  by code_simp+

lemma quotient_0419_80:
  "double (2391.50 / 80) = Fin (8414342585044173 / 281474976710656)"
proof -
  have "(0::rat) < 2391.50 / 80" by code_simp
  moreover have "nearestDouble (2391.50 / 80) = 8414342585044173 / 281474976710656"
    by code_simp
  moreover have "(8414342585044173 / 281474976710656 :: rat) < 2 ^ 1024" by code_simp
  ultimately show ?thesis by (rule double_pos)
qed

lemma cents_0419_80:
  "\<bar>8414342585044173 / 281474976710656 :: rat\<bar> < 10 ^ 21"
  "toFixed2 (8414342585044173 / 281474976710656) = 29.89"
  by code_simp+

text \<open>
  Claim C2, as stated, has the price unrounded. With gold 2391.50 stored for 2024-04-20
  and the ratio 84.5 for the day before, the silver price of 2024-04-20 is 28.30, tagged
  \<open>interpolated\<close>, and not the quotient 2391.50 / 84.5.
\<close>

theorem silver_interpolated_unrounded_counterexample:
  "getHistoricalPrice isoDate [(''2024-04-20'', Fin 2391.50)] [(''2024-04-19'', Fin 84.5)]
      spotPriceCache_init ''2024-04-20'' (Str ''silver'') =
     Inr \<lparr>price = Number (double 28.30), source = ''interpolated'',
          explanation = ''Gold price exact, ratio from 2024-04-19''\<rparr>
   \<and> Number (double 28.30) \<noteq> Number (jsdiv (Fin 2391.50) (Fin 84.5))"
proof
  have near: "findNearestValue isoDate [(''2024-04-19'', Fin 84.5)] ''2024-04-20''
      = Some (''2024-04-19'', Fin 84.5)"
    by (simp add: findNearestValue_def nearestStep_def isoDate_0419 isoDate_0420)
  have "(84.5::rat) \<noteq> 0" by simp
  from rounded_quotient [OF this quotient_0419 cents_0419]
  have round: "parseFloat_toFixed2 (jsdiv (Fin 2391.50) (Fin 84.5)) = double 28.30" .
  have "getHistoricalPrice isoDate [(''2024-04-20'', Fin 2391.50)] [(''2024-04-19'', Fin 84.5)]
      spotPriceCache_init ''2024-04-20'' (Str ''silver'') =
     Inr (case findNearestValue isoDate [(''2024-04-19'', Fin 84.5)] ''2024-04-20'' of
        Some nearestRatio \<Rightarrow>
          \<lparr>price = Number (parseFloat_toFixed2 (jsdiv (Fin 2391.50) (snd nearestRatio))),
           source = ''interpolated'',
           explanation = ''Gold price exact, ratio from '' @ fst nearestRatio\<rparr>
      | None \<Rightarrow>
          \<lparr>price = Number (parseFloat_toFixed2 (jsdiv (Fin 2391.50) (Fin 80))),
           source = ''estimated'',
           explanation = ''Calculated from gold price with estimated ratio''\<rparr>)"
    by (rule silver_gold_exact_general) simp_all
  then show "getHistoricalPrice isoDate [(''2024-04-20'', Fin 2391.50)]
      [(''2024-04-19'', Fin 84.5)] spotPriceCache_init ''2024-04-20'' (Str ''silver'') =
     Inr \<lparr>price = Number (double 28.30), source = ''interpolated'',
          explanation = ''Gold price exact, ratio from 2024-04-19''\<rparr>"
    by (simp only: near option.case snd_conv fst_conv round append.simps)
  have "jsdiv (Fin 2391.50) (Fin 84.5) = Fin (124472523447399 / 4398046511104)"
    using jsdiv_Fin [of "84.5" "2391.50"] quotient_0419 by simp
  moreover have "(7965741840911565 / 281474976710656 :: rat) \<noteq> 124472523447399 / 4398046511104"
    by simp
  ultimately show "Number (double 28.30) \<noteq> Number (jsdiv (Fin 2391.50) (Fin 84.5))"
    by (simp only: double_2830 jsval.inject number.inject not_False_eq_True)
qed

text \<open>
  Claim C2, amended. The tables hold Numbers, so every finite value in them is a
  double. For a silver query on a date with an exact gold record (a finite Number
  other than zero) and no exact ratio: when some ratio is dated within 30 days,
  the price is the gold price divided by a nearest such ratio, rounded to two decimal
  places, tagged \<open>interpolated\<close>; when none is, it is the gold price divided by 80,
  rounded to two decimal places, tagged \<open>estimated\<close>. For a silver query on a date
  without an exact gold record but with some gold record within 30 days, the price is
  a nearest gold price divided by a nearest ratio within 30 days, or by 80 when there
  is none, rounded to two decimal places, tagged \<open>interpolated\<close>. The division of
  finite Numbers gives the double nearest to the quotient, and the rounding of a
  finite result below 1e21 gives the double read from a multiple of 1/100 at most
  1/200 away from it.
\<close>

theorem silver_derived_rounded:
  "(map_of G d = Some (Fin g) \<and> g \<noteq> 0 \<and> \<not> truthyProp (map_of R d)
      \<and> (\<forall>e\<in>set G. representable (snd e)) \<and> (\<forall>e\<in>set R. representable (snd e)) \<longrightarrow>
      (if \<exists>e\<in>set R. within30 getTime d (fst e)
       then \<exists>e. nearestIn getTime R d e \<and>
              getHistoricalPrice getTime G R spotPriceCache d (Str ''silver'') =
                Inr \<lparr>price = Number (parseFloat_toFixed2 (jsdiv (Fin g) (snd e))),
                     source = ''interpolated'',
                     explanation = ''Gold price exact, ratio from '' @ fst e\<rparr>
       else getHistoricalPrice getTime G R spotPriceCache d (Str ''silver'') =
              Inr \<lparr>price = Number (parseFloat_toFixed2 (jsdiv (Fin g) (Fin 80))),
                   source = ''estimated'',
                   explanation = ''Calculated from gold price with estimated ratio''\<rparr>))
   \<and> (\<not> truthyProp (map_of G d) \<and> (\<exists>e\<in>set G. within30 getTime d (fst e))
      \<and> (\<forall>e\<in>set G. representable (snd e)) \<and> (\<forall>e\<in>set R. representable (snd e)) \<longrightarrow>
      (\<exists>eg ratioToUse. nearestIn getTime G d eg \<and>
         (if \<exists>e\<in>set R. within30 getTime d (fst e)
          then \<exists>er. nearestIn getTime R d er \<and> ratioToUse = snd er
          else ratioToUse = Fin 80) \<and>
         getHistoricalPrice getTime G R spotPriceCache d (Str ''silver'') =
           Inr \<lparr>price = Number (parseFloat_toFixed2 (jsdiv (snd eg) ratioToUse)),
                source = ''interpolated'',
                explanation = ''Estimated from '' @ fst eg @ '' gold price''\<rparr>))
   \<and> (b \<noteq> 0 \<longrightarrow> jsdiv (Fin a) (Fin b) = double (a / b))
   \<and> (\<bar>q\<bar> < 10 ^ 21 \<longrightarrow>
        parseFloat_toFixed2 (Fin q) = double (toFixed2 q)
        \<and> (\<exists>n::int. toFixed2 q = of_int n / 100)
        \<and> \<bar>toFixed2 q - q\<bar> \<le> 1 / 200)"
proof (intro conjI impI)
  assume "b \<noteq> 0"
  then show "jsdiv (Fin a) (Fin b) = double (a / b)" by (rule jsdiv_Fin)
next
  assume "\<bar>q\<bar> < 10 ^ 21"
  then show "parseFloat_toFixed2 (Fin q) = double (toFixed2 q)"
    by (rule parseFloat_toFixed2_Fin)
next
  show "\<exists>n::int. toFixed2 q = of_int n / 100" by (rule toFixed2_grid)
next
  show "\<bar>toFixed2 q - q\<bar> \<le> 1 / 200" by (rule toFixed2_near)
next
  assume a: "map_of G d = Some (Fin g) \<and> g \<noteq> 0 \<and> \<not> truthyProp (map_of R d)
      \<and> (\<forall>e\<in>set G. representable (snd e)) \<and> (\<forall>e\<in>set R. representable (snd e))"
  then have g: "map_of G d = Some (Fin g)" "g \<noteq> 0" "\<not> truthyProp (map_of R d)"
    by blast+
  note res = silver_gold_exact_general [OF g, of getTime spotPriceCache]
  show "if \<exists>e\<in>set R. within30 getTime d (fst e)
       then \<exists>e. nearestIn getTime R d e \<and>
              getHistoricalPrice getTime G R spotPriceCache d (Str ''silver'') =
                Inr \<lparr>price = Number (parseFloat_toFixed2 (jsdiv (Fin g) (snd e))),
                     source = ''interpolated'',
                     explanation = ''Gold price exact, ratio from '' @ fst e\<rparr>
       else getHistoricalPrice getTime G R spotPriceCache d (Str ''silver'') =
              Inr \<lparr>price = Number (parseFloat_toFixed2 (jsdiv (Fin g) (Fin 80))),
                   source = ''estimated'',
                   explanation = ''Calculated from gold price with estimated ratio''\<rparr>"
  proof (cases "\<exists>e\<in>set R. within30 getTime d (fst e)")
    case True
    from findNearestValue_found [OF True]
    obtain e where e: "findNearestValue getTime R d = Some e" "nearestIn getTime R d e"
      by blast
    from res e(1) have "getHistoricalPrice getTime G R spotPriceCache d (Str ''silver'') =
                Inr \<lparr>price = Number (parseFloat_toFixed2 (jsdiv (Fin g) (snd e))),
                     source = ''interpolated'',
                     explanation = ''Gold price exact, ratio from '' @ fst e\<rparr>"
      by (simp only: option.case)
    with e(2) True show ?thesis by (simp only: if_True) blast
  next
    case False
    from findNearestValue_missing [OF False] res
    have "getHistoricalPrice getTime G R spotPriceCache d (Str ''silver'') =
              Inr \<lparr>price = Number (parseFloat_toFixed2 (jsdiv (Fin g) (Fin 80))),
                   source = ''estimated'',
                   explanation = ''Calculated from gold price with estimated ratio''\<rparr>"
      by (simp only: option.case)
    with False show ?thesis by (simp only: if_False)
  qed
next
  assume a: "\<not> truthyProp (map_of G d) \<and> (\<exists>e\<in>set G. within30 getTime d (fst e))
      \<and> (\<forall>e\<in>set G. representable (snd e)) \<and> (\<forall>e\<in>set R. representable (snd e))"
  then have "\<exists>e\<in>set G. within30 getTime d (fst e)" by blast
  from findNearestValue_found [OF this]
  obtain eg where eg: "findNearestValue getTime G d = Some eg" "nearestIn getTime G d eg"
    by blast
  define ratioToUse where "ratioToUse =
    (case findNearestValue getTime R d of Some nearestRatio \<Rightarrow> snd nearestRatio
     | None \<Rightarrow> Fin 80)"
  have ratio: "if \<exists>e\<in>set R. within30 getTime d (fst e)
          then \<exists>er. nearestIn getTime R d er \<and> ratioToUse = snd er
          else ratioToUse = Fin 80"
  proof (cases "\<exists>e\<in>set R. within30 getTime d (fst e)")
    case True
    from findNearestValue_found [OF True]
    obtain er where er: "findNearestValue getTime R d = Some er" "nearestIn getTime R d er"
      by blast
    then have "ratioToUse = snd er" by (simp add: ratioToUse_def)
    with er(2) True show ?thesis by (simp only: if_True) blast
  next
    case False
    from findNearestValue_missing [OF False] have "ratioToUse = Fin 80"
      by (simp add: ratioToUse_def)
    with False show ?thesis by (simp only: if_False)
  qed
  from a have "\<not> truthyProp (map_of G d)" by blast
  from silver_gold_nearest_general [OF this eg(1), of R spotPriceCache]
  have "getHistoricalPrice getTime G R spotPriceCache d (Str ''silver'') =
           Inr \<lparr>price = Number (parseFloat_toFixed2 (jsdiv (snd eg) ratioToUse)),
                source = ''interpolated'',
                explanation = ''Estimated from '' @ fst eg @ '' gold price''\<rparr>"
    by (simp only: ratioToUse_def)
  with eg(2) ratio show "\<exists>eg ratioToUse. nearestIn getTime G d eg \<and>
         (if \<exists>e\<in>set R. within30 getTime d (fst e)
          then \<exists>er. nearestIn getTime R d er \<and> ratioToUse = snd er
          else ratioToUse = Fin 80) \<and>
         getHistoricalPrice getTime G R spotPriceCache d (Str ''silver'') =
           Inr \<lparr>price = Number (parseFloat_toFixed2 (jsdiv (snd eg) ratioToUse)),
                source = ''interpolated'',
                explanation = ''Estimated from '' @ fst eg @ '' gold price''\<rparr>"
    by blast
qed

theorem silver_derived_rounded_witness:
  "getHistoricalPrice isoDate [(''2024-05-19'', Fin 2000)] [(''2024-04-19'', Fin 64)]
      spotPriceCache_init ''2024-05-19'' (Str ''silver'') =
     Inr \<lparr>price = Number (double 31.25), source = ''interpolated'',
          explanation = ''Gold price exact, ratio from 2024-04-19''\<rparr>
   \<and> getHistoricalPrice isoDate [(''2024-05-20'', Fin 2006)] [(''2024-04-19'', Fin 64)]
      spotPriceCache_init ''2024-05-20'' (Str ''silver'') =
     Inr \<lparr>price = Number (double 25.07), source = ''estimated'',
          explanation = ''Calculated from gold price with estimated ratio''\<rparr>
   \<and> getHistoricalPrice isoDate [(''2024-04-19'', Fin 2391.50)] []
      spotPriceCache_init ''2024-05-19'' (Str ''silver'') =
     Inr \<lparr>price = Number (double 29.89), source = ''interpolated'',
          explanation = ''Estimated from 2024-04-19 gold price''\<rparr>"
proof (intro conjI)
  let ?G = "[(''2024-05-19'', Fin 2000)]" and ?R = "[(''2024-04-19'', Fin 64)]"
  have hyp: "map_of ?G ''2024-05-19'' = Some (Fin 2000) \<and> (2000::rat) \<noteq> 0
      \<and> \<not> truthyProp (map_of ?R ''2024-05-19'')
      \<and> (\<forall>e\<in>set ?G. representable (snd e)) \<and> (\<forall>e\<in>set ?R. representable (snd e))"
    using representable_2000 representable_64 by simp
  have near: "\<exists>e\<in>set ?R. within30 isoDate ''2024-05-19'' (fst e)"
    by (simp add: isoDate_0419 isoDate_0519)
  from silver_derived_rounded [of ?G "''2024-05-19''" 2000 ?R isoDate spotPriceCache_init,
      THEN conjunct1] hyp
  have "if \<exists>e\<in>set ?R. within30 isoDate ''2024-05-19'' (fst e)
       then \<exists>e. nearestIn isoDate ?R ''2024-05-19'' e \<and>
              getHistoricalPrice isoDate ?G ?R spotPriceCache_init ''2024-05-19''
                (Str ''silver'') =
                Inr \<lparr>price = Number (parseFloat_toFixed2 (jsdiv (Fin 2000) (snd e))),
                     source = ''interpolated'',
                     explanation = ''Gold price exact, ratio from '' @ fst e\<rparr>
       else getHistoricalPrice isoDate ?G ?R spotPriceCache_init ''2024-05-19''
              (Str ''silver'') =
              Inr \<lparr>price = Number (parseFloat_toFixed2 (jsdiv (Fin 2000) (Fin 80))),
                   source = ''estimated'',
                   explanation = ''Calculated from gold price with estimated ratio''\<rparr>"
    by blast
  with near obtain e where e: "e \<in> set ?R"
    and res: "getHistoricalPrice isoDate ?G ?R spotPriceCache_init ''2024-05-19''
                (Str ''silver'') =
                Inr \<lparr>price = Number (parseFloat_toFixed2 (jsdiv (Fin 2000) (snd e))),
                     source = ''interpolated'',
                     explanation = ''Gold price exact, ratio from '' @ fst e\<rparr>"
    by (simp only: if_True) blast
  from e have e': "e = (''2024-04-19'', Fin 64)" by simp
  have "(64::rat) \<noteq> 0" by simp
  from rounded_quotient [OF this quotient_2000_64 cents_2000_64]
  have "parseFloat_toFixed2 (jsdiv (Fin 2000) (Fin 64)) = double 31.25" .
  with res show "getHistoricalPrice isoDate ?G ?R spotPriceCache_init ''2024-05-19''
      (Str ''silver'') =
     Inr \<lparr>price = Number (double 31.25), source = ''interpolated'',
          explanation = ''Gold price exact, ratio from 2024-04-19''\<rparr>"
    by (simp only: e' snd_conv fst_conv append.simps)
next
  let ?G = "[(''2024-05-20'', Fin 2006)]" and ?R = "[(''2024-04-19'', Fin 64)]"
  have hyp: "map_of ?G ''2024-05-20'' = Some (Fin 2006) \<and> (2006::rat) \<noteq> 0
      \<and> \<not> truthyProp (map_of ?R ''2024-05-20'')
      \<and> (\<forall>e\<in>set ?G. representable (snd e)) \<and> (\<forall>e\<in>set ?R. representable (snd e))"
    using representable_2006 representable_64 by simp
  have far: "\<not> (\<exists>e\<in>set ?R. within30 isoDate ''2024-05-20'' (fst e))"
    by (simp add: isoDate_0419 isoDate_0520)
  from silver_derived_rounded [of ?G "''2024-05-20''" 2006 ?R isoDate spotPriceCache_init,
      THEN conjunct1] hyp
  have "if \<exists>e\<in>set ?R. within30 isoDate ''2024-05-20'' (fst e)
       then \<exists>e. nearestIn isoDate ?R ''2024-05-20'' e \<and>
              getHistoricalPrice isoDate ?G ?R spotPriceCache_init ''2024-05-20''
                (Str ''silver'') =
                Inr \<lparr>price = Number (parseFloat_toFixed2 (jsdiv (Fin 2006) (snd e))),
                     source = ''interpolated'',
                     explanation = ''Gold price exact, ratio from '' @ fst e\<rparr>
       else getHistoricalPrice isoDate ?G ?R spotPriceCache_init ''2024-05-20''
              (Str ''silver'') =
              Inr \<lparr>price = Number (parseFloat_toFixed2 (jsdiv (Fin 2006) (Fin 80))),
                   source = ''estimated'',
                   explanation = ''Calculated from gold price with estimated ratio''\<rparr>"
    by blast
  with far have res: "getHistoricalPrice isoDate ?G ?R spotPriceCache_init ''2024-05-20''
              (Str ''silver'') =
              Inr \<lparr>price = Number (parseFloat_toFixed2 (jsdiv (Fin 2006) (Fin 80))),
                   source = ''estimated'',
                   explanation = ''Calculated from gold price with estimated ratio''\<rparr>"
    by (simp only: if_False)
  have "(80::rat) \<noteq> 0" by simp
  from rounded_quotient [OF this quotient_2006 cents_2006]
  have "parseFloat_toFixed2 (jsdiv (Fin 2006) (Fin 80)) = double 25.07" .
  with res show "getHistoricalPrice isoDate ?G ?R spotPriceCache_init ''2024-05-20''
      (Str ''silver'') =
     Inr \<lparr>price = Number (double 25.07), source = ''estimated'',
          explanation = ''Calculated from gold price with estimated ratio''\<rparr>"
    by (simp only:)
next
  let ?G = "[(''2024-04-19'', Fin 2391.50)]" and ?R = "[] :: table"
  have hyp: "\<not> truthyProp (map_of ?G ''2024-05-19'')
      \<and> (\<exists>e\<in>set ?G. within30 isoDate ''2024-05-19'' (fst e))
      \<and> (\<forall>e\<in>set ?G. representable (snd e)) \<and> (\<forall>e\<in>set ?R. representable (snd e))"
    using representable_2391 by (simp add: isoDate_0419 isoDate_0519)
  from silver_derived_rounded [of ?G "''2024-05-19''" 0 ?R isoDate spotPriceCache_init,
      THEN conjunct2, THEN conjunct1] hyp
  obtain eg ratioToUse where eg: "eg \<in> set ?G"
    and ratio: "if \<exists>e\<in>set ?R. within30 isoDate ''2024-05-19'' (fst e)
          then \<exists>er. nearestIn isoDate ?R ''2024-05-19'' er \<and> ratioToUse = snd er
          else ratioToUse = Fin 80"
    and res: "getHistoricalPrice isoDate ?G ?R spotPriceCache_init ''2024-05-19''
        (Str ''silver'') =
           Inr \<lparr>price = Number (parseFloat_toFixed2 (jsdiv (snd eg) ratioToUse)),
                source = ''interpolated'',
                explanation = ''Estimated from '' @ fst eg @ '' gold price''\<rparr>"
    by blast
  from eg have eg': "eg = (''2024-04-19'', Fin 2391.50)" by simp
  from ratio have ratio': "ratioToUse = Fin 80" by simp
  have "(80::rat) \<noteq> 0" by simp
  from rounded_quotient [OF this quotient_0419_80 cents_0419_80]
  have "parseFloat_toFixed2 (jsdiv (Fin 2391.50) (Fin 80)) = double 29.89" .
  with res show "getHistoricalPrice isoDate ?G ?R spotPriceCache_init ''2024-05-19''
      (Str ''silver'') =
     Inr \<lparr>price = Number (double 29.89), source = ''interpolated'',
          explanation = ''Estimated from 2024-04-19 gold price''\<rparr>"
    by (simp only: eg' ratio' snd_conv fst_conv append.simps)
qed

section \<open>Stale cache and a failing price feed\<close>

lemma liveSpot_Some_iff:
  "liveSpot fetched = Some (s, g) \<longleftrightarrow>
     (\<exists>prices. fetched = Response True (Some prices) \<and> readPrices prices = Inr (s, g)
        \<and> truthy s \<and> truthy g)"
  by (auto simp: liveSpot_def split: fetch_result.splits option.splits sum.splits if_splits)

lemma liveSpot_None_iff:
  "liveSpot fetched = None \<longleftrightarrow>
     (fetched = FetchFailed \<or> (\<exists>body. fetched = Response False body)
      \<or> fetched = Response True None
      \<or> (\<exists>prices. fetched = Response True (Some prices) \<and>
            (readPrices prices = Inl TypeError
             \<or> (\<exists>s g. readPrices prices = Inr (s, g) \<and> \<not> (truthy s \<and> truthy g)))))"
proof (cases fetched)
  case FetchFailed
  then show ?thesis by (simp add: liveSpot_def)
next
  case (Response ok body)
  show ?thesis
  proof (cases body)
    case None
    with Response show ?thesis by (cases ok) (simp_all add: liveSpot_def)
  next
    case (Some prices)
    show ?thesis
    proof (cases "readPrices prices")
      case (Inl e)
      then have "readPrices prices = Inl TypeError" by (cases e) simp
      with Response Some show ?thesis by (cases ok) (simp_all add: liveSpot_def)
    next
      case (Inr sg)
      obtain s g where "sg = (s, g)" by (cases sg)
      with Inr Response Some show ?thesis by (cases ok) (auto simp: liveSpot_def)
    qed
  qed
qed

text \<open>
  Claim C6. When the cache is stale and the request to the feed fails or is aborted,
  answers with a status that is not ok, with a body that is no JSON, with a body whose
  reading throws, or with a body that lacks a truthy silver or gold price, the handler
  of \<open>GET /api/spot-prices\<close> answers \<open>success: true\<close> with the cached silver and gold,
  \<open>cached: true\<close> and the note, and leaves the cache as it was. The cache changes only
  when it is stale and the feed answers ok with a body that gives both a truthy silver
  and a truthy gold price; it then holds these two and the time of the request.
\<close>

theorem spotPrices_stale_fallback:
  "(\<not> fresh spotPriceCache now \<and>
      (fetched = FetchFailed \<or> (\<exists>body. fetched = Response False body)
       \<or> fetched = Response True None
       \<or> (\<exists>prices. fetched = Response True (Some prices) \<and>
             (readPrices prices = Inl TypeError
              \<or> (\<exists>s g. readPrices prices = Inr (s, g) \<and> \<not> (truthy s \<and> truthy g)))))
     \<longrightarrow> spotPrices spotPriceCache now fetched clock =
           (\<lparr>res_success = True, res_silver = silver spotPriceCache,
             res_gold = gold spotPriceCache, res_timestamp = clock, res_cached = Some True,
             res_note = Some ''Using cached prices - live API temporarily unavailable''\<rparr>,
            spotPriceCache))
   \<and> (snd (spotPrices spotPriceCache now fetched clock) \<noteq> spotPriceCache \<longrightarrow>
        \<not> fresh spotPriceCache now \<and>
        (\<exists>prices s g. fetched = Response True (Some prices)
           \<and> readPrices prices = Inr (s, g) \<and> truthy s \<and> truthy g
           \<and> snd (spotPrices spotPriceCache now fetched clock) =
               \<lparr>silver = s, gold = g, timestamp = Some now\<rparr>))"
proof (intro conjI impI)
  assume a: "\<not> fresh spotPriceCache now \<and>
      (fetched = FetchFailed \<or> (\<exists>body. fetched = Response False body)
       \<or> fetched = Response True None
       \<or> (\<exists>prices. fetched = Response True (Some prices) \<and>
             (readPrices prices = Inl TypeError
              \<or> (\<exists>s g. readPrices prices = Inr (s, g) \<and> \<not> (truthy s \<and> truthy g)))))"
  then have "liveSpot fetched = None" by (simp only: liveSpot_None_iff)
  with a show "spotPrices spotPriceCache now fetched clock =
           (\<lparr>res_success = True, res_silver = silver spotPriceCache,
             res_gold = gold spotPriceCache, res_timestamp = clock, res_cached = Some True,
             res_note = Some ''Using cached prices - live API temporarily unavailable''\<rparr>,
            spotPriceCache)"
    by (simp add: spotPrices_def)
next
  assume changed: "snd (spotPrices spotPriceCache now fetched clock) \<noteq> spotPriceCache"
  then show "\<not> fresh spotPriceCache now" by (auto simp: spotPrices_def)
  from changed have stale: "\<not> fresh spotPriceCache now" by (auto simp: spotPrices_def)
  with changed obtain s g where sg: "liveSpot fetched = Some (s, g)"
    by (cases "liveSpot fetched") (auto simp: spotPrices_def)
  with stale have "snd (spotPrices spotPriceCache now fetched clock) =
      \<lparr>silver = s, gold = g, timestamp = Some now\<rparr>"
    by (simp add: spotPrices_def)
  with sg show "\<exists>prices s g. fetched = Response True (Some prices)
           \<and> readPrices prices = Inr (s, g) \<and> truthy s \<and> truthy g
           \<and> snd (spotPrices spotPriceCache now fetched clock) =
               \<lparr>silver = s, gold = g, timestamp = Some now\<rparr>"
    unfolding liveSpot_Some_iff by blast
qed

theorem spotPrices_stale_fallback_witness:
  "spotPrices \<lparr>silver = Number (Fin 31.20), gold = Number (Fin 2700.50),
                timestamp = Some 1700000000000\<rparr> 1700000600000 FetchFailed 1700000600007 =
     (\<lparr>res_success = True, res_silver = Number (Fin 31.20), res_gold = Number (Fin 2700.50),
       res_timestamp = 1700000600007, res_cached = Some True,
       res_note = Some ''Using cached prices - live API temporarily unavailable''\<rparr>,
      \<lparr>silver = Number (Fin 31.20), gold = Number (Fin 2700.50),
       timestamp = Some 1700000000000\<rparr>)
   \<and> spotPrices spotPriceCache_init 5 (Response True (Some (Obj [(''gold'', Number (Fin 2700))])))
       6 =
     (\<lparr>res_success = True, res_silver = Number (Fin 30.50), res_gold = Number (Fin 2650),
       res_timestamp = 6, res_cached = Some True,
       res_note = Some ''Using cached prices - live API temporarily unavailable''\<rparr>,
      spotPriceCache_init)
   \<and> spotPrices spotPriceCache_init 5 (Response True (Some Null)) 6 =
     (\<lparr>res_success = True, res_silver = Number (Fin 30.50), res_gold = Number (Fin 2650),
       res_timestamp = 6, res_cached = Some True,
       res_note = Some ''Using cached prices - live API temporarily unavailable''\<rparr>,
      spotPriceCache_init)
   \<and> snd (spotPrices spotPriceCache_init 5
        (Response True (Some (Arr [Obj [(''metal'', Str ''gold''), (''price'', Number (Fin 2700))],
                                   Obj [(''metal'', Str ''silver''), (''price'', Number (Fin 31))]])))
        6) =
     \<lparr>silver = Number (Fin 31), gold = Number (Fin 2700), timestamp = Some 5\<rparr>"
proof (intro conjI)
  let ?c = "\<lparr>silver = Number (Fin 31.20), gold = Number (Fin 2700.50),
                timestamp = Some 1700000000000\<rparr>"
  have "\<not> fresh ?c 1700000600000" by (simp add: fresh_def)
  with spotPrices_stale_fallback [of ?c 1700000600000 FetchFailed 1700000600007]
  show "spotPrices ?c 1700000600000 FetchFailed 1700000600007 =
     (\<lparr>res_success = True, res_silver = Number (Fin 31.20), res_gold = Number (Fin 2700.50),
       res_timestamp = 1700000600007, res_cached = Some True,
       res_note = Some ''Using cached prices - live API temporarily unavailable''\<rparr>, ?c)"
    by simp
next
  let ?f = "Response True (Some (Obj [(''gold'', Number (Fin 2700))]))"
  have stale: "\<not> fresh spotPriceCache_init 5" by (simp add: fresh_def spotPriceCache_init_def)
  have "readPrices (Obj [(''gold'', Number (Fin 2700))]) = Inr (Null, Number (Fin 2700))"
    by (simp add: readPrices_def orNull_def)
  with stale spotPrices_stale_fallback [of spotPriceCache_init 5 ?f 6]
  show "spotPrices spotPriceCache_init 5 ?f 6 =
     (\<lparr>res_success = True, res_silver = Number (Fin 30.50), res_gold = Number (Fin 2650),
       res_timestamp = 6, res_cached = Some True,
       res_note = Some ''Using cached prices - live API temporarily unavailable''\<rparr>,
      spotPriceCache_init)"
    by (simp add: spotPriceCache_init_def)
next
  let ?f = "Response True (Some Null)"
  have stale: "\<not> fresh spotPriceCache_init 5" by (simp add: fresh_def spotPriceCache_init_def)
  have "readPrices Null = Inl TypeError" by (simp add: readPrices_def)
  with stale spotPrices_stale_fallback [of spotPriceCache_init 5 ?f 6]
  show "spotPrices spotPriceCache_init 5 ?f 6 =
     (\<lparr>res_success = True, res_silver = Number (Fin 30.50), res_gold = Number (Fin 2650),
       res_timestamp = 6, res_cached = Some True,
       res_note = Some ''Using cached prices - live API temporarily unavailable''\<rparr>,
      spotPriceCache_init)"
    by (simp add: spotPriceCache_init_def)
next
  let ?f = "Response True (Some (Arr [Obj [(''metal'', Str ''gold''), (''price'', Number (Fin 2700))],
                                   Obj [(''metal'', Str ''silver''), (''price'', Number (Fin 31))]]))"
  have read: "readPrices (Arr [Obj [(''metal'', Str ''gold''), (''price'', Number (Fin 2700))],
                 Obj [(''metal'', Str ''silver''), (''price'', Number (Fin 31))]]) =
      Inr (Number (Fin 31), Number (Fin 2700))"
    by (simp add: readPrices_def orNull_def priceOf_def)
  then have "snd (spotPrices spotPriceCache_init 5 ?f 6) \<noteq> spotPriceCache_init"
    by (simp add: spotPrices_def fresh_def spotPriceCache_init_def liveSpot_def)
  with spotPrices_stale_fallback [of spotPriceCache_init 5 ?f 6]
  obtain prices s g where "?f = Response True (Some prices)" "readPrices prices = Inr (s, g)"
    "snd (spotPrices spotPriceCache_init 5 ?f 6) = \<lparr>silver = s, gold = g, timestamp = Some 5\<rparr>"
    by blast
  with read show "snd (spotPrices spotPriceCache_init 5 ?f 6) =
      \<lparr>silver = Number (Fin 31), gold = Number (Fin 2700), timestamp = Some 5\<rparr>"
    by simp
qed

section \<open>Calibration of the ETF ratios\<close>

lemma calibrate_unavailable_general:
  assumes "quotes = QuotesFailed
     \<or> (\<exists>slv gld. quotes = Quotes slv gld \<and> (slv = None \<or> gld = None))"
  shows "\<exists>l. calibrateRatios quotes today clock upsertOk st goldSpot silverSpot =
           (None, logged l st)"
  using assms
  by (auto simp: calibrateRatios_def split: quotes_result.splits option.splits)

text \<open>
  Claim C7. Whenever the SLV or the GLD quote is unavailable (the quotes call fails, or
  one of the two quotes is missing), \<open>calibrateRatios\<close> returns \<open>null\<close>, the in-memory
  ratio cache is what it was before the call, and so is the table of stored
  calibration records.
\<close>

theorem calibrateRatios_quote_unavailable:
  "quotes = QuotesFailed \<or> (\<exists>slv gld. quotes = Quotes slv gld \<and> (slv = None \<or> gld = None))
   \<longrightarrow> fst (calibrateRatios quotes today clock upsertOk st goldSpot silverSpot) = None
     \<and> ratioCache (snd (calibrateRatios quotes today clock upsertOk st goldSpot silverSpot))
         = ratioCache st
     \<and> etf_ratios (snd (calibrateRatios quotes today clock upsertOk st goldSpot silverSpot))
         = etf_ratios st"
proof
  assume "quotes = QuotesFailed
     \<or> (\<exists>slv gld. quotes = Quotes slv gld \<and> (slv = None \<or> gld = None))"
  from calibrate_unavailable_general [OF this, of today clock upsertOk st goldSpot silverSpot]
  obtain l where "calibrateRatios quotes today clock upsertOk st goldSpot silverSpot =
           (None, logged l st)" ..
  then show "fst (calibrateRatios quotes today clock upsertOk st goldSpot silverSpot) = None
     \<and> ratioCache (snd (calibrateRatios quotes today clock upsertOk st goldSpot silverSpot))
         = ratioCache st
     \<and> etf_ratios (snd (calibrateRatios quotes today clock upsertOk st goldSpot silverSpot))
         = etf_ratios st"
    by (simp add: logged_def)
qed

theorem calibrateRatios_quote_unavailable_witness:
  "calibrateRatios (Quotes None (Some (Fin 246.9))) ''2024-04-19'' ''2024-04-19T14:00:00.000Z''
      True
      \<lparr>ratioCache = \<lparr>slvRatio = Fin 0.92, gldRatio = Fin 0.093, date = Some ''2024-04-18''\<rparr>,
       etf_ratios = Some [\<lparr>row_date = ''2024-04-18'', row_slv_ratio = Fin 0.92,
         row_gld_ratio = Fin 0.093, row_slv_price = Fin 26, row_gld_price = Fin 220,
         row_gold_spot = Fin 2370, row_silver_spot = Fin 28.2,
         row_updated_at = ''2024-04-18T14:00:00.000Z''\<rparr>], console = []\<rparr>
      (Fin 2650) (Fin 30.5) =
    (None,
     \<lparr>ratioCache = \<lparr>slvRatio = Fin 0.92, gldRatio = Fin 0.093, date = Some ''2024-04-18''\<rparr>,
      etf_ratios = Some [\<lparr>row_date = ''2024-04-18'', row_slv_ratio = Fin 0.92,
         row_gld_ratio = Fin 0.093, row_slv_price = Fin 26, row_gld_price = Fin 220,
         row_gold_spot = Fin 2370, row_silver_spot = Fin 28.2,
         row_updated_at = ''2024-04-18T14:00:00.000Z''\<rparr>], console = [QuoteFetchFailed]\<rparr>)"
proof -
  let ?st = "\<lparr>ratioCache = \<lparr>slvRatio = Fin 0.92, gldRatio = Fin 0.093,
                 date = Some ''2024-04-18''\<rparr>,
       etf_ratios = Some [\<lparr>row_date = ''2024-04-18'', row_slv_ratio = Fin 0.92,
         row_gld_ratio = Fin 0.093, row_slv_price = Fin 26, row_gld_price = Fin 220,
         row_gold_spot = Fin 2370, row_silver_spot = Fin 28.2,
         row_updated_at = ''2024-04-18T14:00:00.000Z''\<rparr>], console = []\<rparr>"
  let ?r = "calibrateRatios (Quotes None (Some (Fin 246.9))) ''2024-04-19''
      ''2024-04-19T14:00:00.000Z'' True ?st (Fin 2650) (Fin 30.5)"
  from calibrateRatios_quote_unavailable [of "Quotes None (Some (Fin 246.9))" "''2024-04-19''"
      "''2024-04-19T14:00:00.000Z''" True ?st "Fin 2650" "Fin 30.5"]
  have "fst ?r = None" "ratioCache (snd ?r) = ratioCache ?st"
    "etf_ratios (snd ?r) = etf_ratios ?st"
    by simp_all
  moreover have "console (snd ?r) = [QuoteFetchFailed]"
    by (simp add: calibrateRatios_def logged_def)
  ultimately show ?thesis by (cases ?r) (cases "snd ?r", simp)
qed

lemma calibrate_available_general:
  "calibrateRatios (Quotes (Some slvP) (Some gldP)) today clock upsertOk st goldSpot silverSpot =
     (Some \<lparr>slvRatio = jsdiv slvP silverSpot, gldRatio = jsdiv gldP goldSpot,
            slvPrice = slvP, gldPrice = gldP\<rparr>,
      logged (Calibrated today)
        (case etf_ratios st of
           None \<Rightarrow>
             st\<lparr>ratioCache := \<lparr>slvRatio = jsdiv slvP silverSpot,
                    gldRatio = jsdiv gldP goldSpot, date = Some today\<rparr>\<rparr>
         | Some rows \<Rightarrow>
             if upsertOk then
               st\<lparr>ratioCache := \<lparr>slvRatio = jsdiv slvP silverSpot,
                      gldRatio = jsdiv gldP goldSpot, date = Some today\<rparr>,
                  etf_ratios := Some (upsert
                    \<lparr>row_date = today, row_slv_ratio = jsdiv slvP silverSpot,
                     row_gld_ratio = jsdiv gldP goldSpot, row_slv_price = slvP,
                     row_gld_price = gldP, row_gold_spot = goldSpot,
                     row_silver_spot = silverSpot, row_updated_at = clock\<rparr> rows)\<rparr>
             else
               logged SaveFailed
                 (st\<lparr>ratioCache := \<lparr>slvRatio = jsdiv slvP silverSpot,
                        gldRatio = jsdiv gldP goldSpot, date = Some today\<rparr>\<rparr>)))"
  by (simp add: calibrateRatios_def Let_def split: option.splits)

lemma ratios_example:
  "jsdiv (Fin 28.10) (Fin 30.5) = Fin (8298436034695799 / 9007199254740992)"
  "jsdiv (Fin 246.9) (Fin 2650) = Fin (3356796220370643 / 36028797018963968)"
proof -
  have "(0::rat) < 28.10 / 30.5" by code_simp
  moreover have "nearestDouble (28.10 / 30.5) = 8298436034695799 / 9007199254740992"
    by code_simp
  moreover have "(8298436034695799 / 9007199254740992 :: rat) < 2 ^ 1024" by code_simp
  ultimately have "double (28.10 / 30.5) = Fin (8298436034695799 / 9007199254740992)"
    by (rule double_pos)
  moreover have "jsdiv (Fin 28.10) (Fin 30.5) = double (28.10 / 30.5)"
    by (rule jsdiv_Fin) simp
  ultimately show "jsdiv (Fin 28.10) (Fin 30.5) = Fin (8298436034695799 / 9007199254740992)"
    by (simp only:)
  have "(0::rat) < 246.9 / 2650" by code_simp
  moreover have "nearestDouble (246.9 / 2650) = 3356796220370643 / 36028797018963968"
    by code_simp
  moreover have "(3356796220370643 / 36028797018963968 :: rat) < 2 ^ 1024" by code_simp
  ultimately have "double (246.9 / 2650) = Fin (3356796220370643 / 36028797018963968)"
    by (rule double_pos)
  moreover have "jsdiv (Fin 246.9) (Fin 2650) = double (246.9 / 2650)"
    by (rule jsdiv_Fin) simp
  ultimately show "jsdiv (Fin 246.9) (Fin 2650) = Fin (3356796220370643 / 36028797018963968)"
    by (simp only:)
qed

lemma ratios_witness:
  "jsdiv (Fin 28.125) (Fin 30.5) = Fin (8305818984904603 / 9007199254740992)"
  "jsdiv (Fin 246.875) (Fin 2650) = Fin (3356456326059143 / 36028797018963968)"
proof -
  have "(0::rat) < 28.125 / 30.5" by code_simp
  moreover have "nearestDouble (28.125 / 30.5) = 8305818984904603 / 9007199254740992"
    by code_simp
  moreover have "(8305818984904603 / 9007199254740992 :: rat) < 2 ^ 1024" by code_simp
  ultimately have "double (28.125 / 30.5) = Fin (8305818984904603 / 9007199254740992)"
    by (rule double_pos)
  moreover have "jsdiv (Fin 28.125) (Fin 30.5) = double (28.125 / 30.5)"
    by (rule jsdiv_Fin) simp
  ultimately show "jsdiv (Fin 28.125) (Fin 30.5) = Fin (8305818984904603 / 9007199254740992)"
    by (simp only:)
  have "(0::rat) < 246.875 / 2650" by code_simp
  moreover have "nearestDouble (246.875 / 2650) = 3356456326059143 / 36028797018963968"
    by code_simp
  moreover have "(3356456326059143 / 36028797018963968 :: rat) < 2 ^ 1024" by code_simp
  ultimately have "double (246.875 / 2650) = Fin (3356456326059143 / 36028797018963968)"
    by (rule double_pos)
  moreover have "jsdiv (Fin 246.875) (Fin 2650) = double (246.875 / 2650)"
    by (rule jsdiv_Fin) simp
  ultimately show "jsdiv (Fin 246.875) (Fin 2650) = Fin (3356456326059143 / 36028797018963968)"
    by (simp only:)
qed

text \<open>
  Claim C8. When both quotes are available, \<open>calibrateRatios\<close> returns the ratios
  \<open>slvPrice / silverSpot\<close> and \<open>gldPrice / goldSpot\<close> with the two prices, and the
  in-memory cache holds these ratios under today's date, whether the store is
  configured or not and whether the upsert succeeds or not; a failed upsert is logged
  and the ratios are returned all the same. For the spots 2650 and 30.5 with SLV at
  28.10 and GLD at 246.9 the ratios are 0.9213 and 0.09317 to the digits given.
\<close>

theorem calibrateRatios_best_effort:
  "fst (calibrateRatios (Quotes (Some slvP) (Some gldP)) today clock upsertOk st
          goldSpot silverSpot) =
     Some \<lparr>slvRatio = jsdiv slvP silverSpot, gldRatio = jsdiv gldP goldSpot,
           slvPrice = slvP, gldPrice = gldP\<rparr>
   \<and> ratioCache (snd (calibrateRatios (Quotes (Some slvP) (Some gldP)) today clock upsertOk st
          goldSpot silverSpot)) =
     \<lparr>slvRatio = jsdiv slvP silverSpot, gldRatio = jsdiv gldP goldSpot, date = Some today\<rparr>
   \<and> (etf_ratios st \<noteq> None \<and> \<not> upsertOk \<longrightarrow>
        console (snd (calibrateRatios (Quotes (Some slvP) (Some gldP)) today clock upsertOk st
          goldSpot silverSpot)) = console st @ [SaveFailed, Calibrated today])
   \<and> (\<exists>a b. jsdiv (Fin 28.10) (Fin 30.5) = Fin a \<and> \<bar>a - 0.9213\<bar> < 0.00005
         \<and> jsdiv (Fin 246.9) (Fin 2650) = Fin b \<and> \<bar>b - 0.09317\<bar> < 0.000005)"
proof (intro conjI impI)
  show "\<exists>a b. jsdiv (Fin 28.10) (Fin 30.5) = Fin a \<and> \<bar>a - 0.9213\<bar> < 0.00005
         \<and> jsdiv (Fin 246.9) (Fin 2650) = Fin b \<and> \<bar>b - 0.09317\<bar> < 0.000005"
  proof (intro exI conjI)
    show "jsdiv (Fin 28.10) (Fin 30.5) = Fin (8298436034695799 / 9007199254740992)"
      by (rule ratios_example)
    show "jsdiv (Fin 246.9) (Fin 2650) = Fin (3356796220370643 / 36028797018963968)"
      by (rule ratios_example)
    show "\<bar>8298436034695799 / 9007199254740992 - 0.9213 :: rat\<bar> < 0.00005" by simp
    show "\<bar>3356796220370643 / 36028797018963968 - 0.09317 :: rat\<bar> < 0.000005" by simp
  qed
next
  assume "etf_ratios st \<noteq> None \<and> \<not> upsertOk"
  then show "console (snd (calibrateRatios (Quotes (Some slvP) (Some gldP)) today clock
      upsertOk st goldSpot silverSpot)) = console st @ [SaveFailed, Calibrated today]"
    by (auto simp: calibrate_available_general logged_def)
qed (simp_all add: calibrate_available_general logged_def split: option.splits)

theorem calibrateRatios_best_effort_witness:
  "calibrateRatios (Quotes (Some (Fin 28.125)) (Some (Fin 246.875))) ''2024-04-19''
      ''2024-04-19T14:00:00.000Z'' False
      \<lparr>ratioCache = \<lparr>slvRatio = Fin 0.92, gldRatio = Fin 0.093, date = None\<rparr>,
       etf_ratios = Some [], console = []\<rparr>
      (Fin 2650) (Fin 30.5) =
    (Some \<lparr>slvRatio = Fin (8305818984904603 / 9007199254740992), gldRatio = Fin (3356456326059143 / 36028797018963968),
           slvPrice = Fin 28.125, gldPrice = Fin 246.875\<rparr>,
     \<lparr>ratioCache = \<lparr>slvRatio = Fin (8305818984904603 / 9007199254740992), gldRatio = Fin (3356456326059143 / 36028797018963968),
                     date = Some ''2024-04-19''\<rparr>,
      etf_ratios = Some [], console = [SaveFailed, Calibrated ''2024-04-19'']\<rparr>)"
proof -
  let ?st = "\<lparr>ratioCache = \<lparr>slvRatio = Fin 0.92, gldRatio = Fin 0.093, date = None\<rparr>,
       etf_ratios = Some [], console = []\<rparr>"
  let ?r = "calibrateRatios (Quotes (Some (Fin 28.125)) (Some (Fin 246.875))) ''2024-04-19''
      ''2024-04-19T14:00:00.000Z'' False ?st (Fin 2650) (Fin 30.5)"
  note ratios = ratios_witness
  from calibrateRatios_best_effort [of "Fin 28.125" "Fin 246.875" "''2024-04-19''"
      "''2024-04-19T14:00:00.000Z''" False ?st "Fin 2650" "Fin 30.5"]
  have "fst ?r = Some \<lparr>slvRatio = Fin (8305818984904603 / 9007199254740992), gldRatio = Fin (3356456326059143 / 36028797018963968),
           slvPrice = Fin 28.125, gldPrice = Fin 246.875\<rparr>"
    and "ratioCache (snd ?r) = \<lparr>slvRatio = Fin (8305818984904603 / 9007199254740992), gldRatio = Fin (3356456326059143 / 36028797018963968),
                     date = Some ''2024-04-19''\<rparr>"
    and "console (snd ?r) = [SaveFailed, Calibrated ''2024-04-19'']"
    by (simp_all only: ratios calib_state.simps option.distinct not_False_eq_True
        simp_thms append_Nil)
  moreover have "etf_ratios (snd ?r) = Some []"
    by (simp add: calibrate_available_general logged_def)
  ultimately show ?thesis by (cases ?r) (cases "snd ?r", simp)
qed

text \<open>
  The query of \<open>getRatioForDate\<close> gives a row of the table dated on or before the
  given date, than which no such row is later, and gives none only when there is none.
\<close>

lemma latestOnOrBefore_SomeD:
  assumes "latestOnOrBefore d rows = Some r"
  shows "r \<in> set rows \<and> row_date r \<le> d
       \<and> (\<forall>r'\<in>set rows. row_date r' \<le> d \<longrightarrow> row_date r' \<le> row_date r)"
proof -
  let ?xs = "sort_key row_date (filter (\<lambda>r. row_date r \<le> d) rows)"
  from assms obtain rest where "rev ?xs = r # rest"
    by (auto simp: latestOnOrBefore_def split: list.splits)
  then have xs: "?xs = rev rest @ [r]" by (simp add: rev_eq_Cons_iff)
  have "sorted (map row_date ?xs)" by (rule sorted_sort_key)
  with xs have le: "\<forall>x\<in>set ?xs. row_date x \<le> row_date r"
    by (auto simp: sorted_append)
  have set: "set ?xs = {r \<in> set rows. row_date r \<le> d}" by simp
  from xs have "r \<in> set ?xs" by simp
  with set le show ?thesis by auto
qed

lemma latestOnOrBefore_None_iff:
  "latestOnOrBefore d rows = None \<longleftrightarrow> (\<forall>r\<in>set rows. \<not> row_date r \<le> d)"
proof -
  let ?xs = "sort_key row_date (filter (\<lambda>r. row_date r \<le> d) rows)"
  have "latestOnOrBefore d rows = None \<longleftrightarrow> ?xs = []"
    by (auto simp: latestOnOrBefore_def split: list.splits)
  also have "\<dots> \<longleftrightarrow> set ?xs = {}" by (simp only: set_empty)
  also have "\<dots> \<longleftrightarrow> (\<forall>r\<in>set rows. \<not> row_date r \<le> d)" by auto
  finally show ?thesis .
qed

text \<open>
  Claim C9. \<open>getRatioForDate(d)\<close> resolves in order: when \<open>d\<close> is the date of the
  in-memory cache it returns the cached ratios; otherwise, when the store answers and
  holds a record dated on or before \<open>d\<close>, it returns the ratios of a latest such
  record, never of a record dated after \<open>d\<close>; and when there is no such record, as for
  every \<open>d\<close> before the first calibration (or when there is no store or the query
  fails), it returns the default ratios.
\<close>

theorem getRatioForDate_order:
  "(date (ratioCache st) = Some d \<longrightarrow>
      getRatioForDate DEFAULT_SLV_RATIO DEFAULT_GLD_RATIO queryOk st d =
        \<lparr>slv_ratio = slvRatio (ratioCache st), gld_ratio = gldRatio (ratioCache st)\<rparr>)
   \<and> (date (ratioCache st) \<noteq> Some d \<and> etf_ratios st = Some rows \<and> queryOk
        \<and> (\<exists>r\<in>set rows. row_date r \<le> d) \<longrightarrow>
      (\<exists>r\<in>set rows. row_date r \<le> d
          \<and> (\<forall>r'\<in>set rows. row_date r' \<le> d \<longrightarrow> row_date r' \<le> row_date r)
          \<and> getRatioForDate DEFAULT_SLV_RATIO DEFAULT_GLD_RATIO queryOk st d =
              \<lparr>slv_ratio = row_slv_ratio r, gld_ratio = row_gld_ratio r\<rparr>))
   \<and> (date (ratioCache st) \<noteq> Some d
        \<and> (etf_ratios st = None \<or> \<not> queryOk
            \<or> (\<exists>rows. etf_ratios st = Some rows \<and> (\<forall>r\<in>set rows. \<not> row_date r \<le> d))) \<longrightarrow>
      getRatioForDate DEFAULT_SLV_RATIO DEFAULT_GLD_RATIO queryOk st d =
        \<lparr>slv_ratio = DEFAULT_SLV_RATIO, gld_ratio = DEFAULT_GLD_RATIO\<rparr>)"
proof (intro conjI impI)
  assume "date (ratioCache st) = Some d"
  then show "getRatioForDate DEFAULT_SLV_RATIO DEFAULT_GLD_RATIO queryOk st d =
        \<lparr>slv_ratio = slvRatio (ratioCache st), gld_ratio = gldRatio (ratioCache st)\<rparr>"
    by (simp add: getRatioForDate_def)
next
  assume a: "date (ratioCache st) \<noteq> Some d \<and> etf_ratios st = Some rows \<and> queryOk
        \<and> (\<exists>r\<in>set rows. row_date r \<le> d)"
  then have "latestOnOrBefore d rows \<noteq> None" by (simp add: latestOnOrBefore_None_iff)
  then obtain r where r: "latestOnOrBefore d rows = Some r" by auto
  with a have "getRatioForDate DEFAULT_SLV_RATIO DEFAULT_GLD_RATIO queryOk st d =
              \<lparr>slv_ratio = row_slv_ratio r, gld_ratio = row_gld_ratio r\<rparr>"
    by (simp add: getRatioForDate_def)
  with latestOnOrBefore_SomeD [OF r]
  show "\<exists>r\<in>set rows. row_date r \<le> d
          \<and> (\<forall>r'\<in>set rows. row_date r' \<le> d \<longrightarrow> row_date r' \<le> row_date r)
          \<and> getRatioForDate DEFAULT_SLV_RATIO DEFAULT_GLD_RATIO queryOk st d =
              \<lparr>slv_ratio = row_slv_ratio r, gld_ratio = row_gld_ratio r\<rparr>"
    by blast
next
  assume a: "date (ratioCache st) \<noteq> Some d
        \<and> (etf_ratios st = None \<or> \<not> queryOk
            \<or> (\<exists>rows. etf_ratios st = Some rows \<and> (\<forall>r\<in>set rows. \<not> row_date r \<le> d)))"
  then have "(case etf_ratios st of None \<Rightarrow> None
       | Some rows \<Rightarrow> if queryOk then latestOnOrBefore d rows else None) = None"
    by (auto simp: latestOnOrBefore_None_iff split: option.splits)
  with a show "getRatioForDate DEFAULT_SLV_RATIO DEFAULT_GLD_RATIO queryOk st d =
        \<lparr>slv_ratio = DEFAULT_SLV_RATIO, gld_ratio = DEFAULT_GLD_RATIO\<rparr>"
    by (simp add: getRatioForDate_def)
qed

theorem getRatioForDate_order_witness:
  "getRatioForDate (Fin 0.92) (Fin 0.092) True
      \<lparr>ratioCache = \<lparr>slvRatio = Fin 0.93, gldRatio = Fin 0.094, date = Some ''2024-04-20''\<rparr>,
       etf_ratios = Some
        [\<lparr>row_date = ''2024-04-15'', row_slv_ratio = Fin 0.91, row_gld_ratio = Fin 0.091,
          row_slv_price = Fin 26, row_gld_price = Fin 218, row_gold_spot = Fin 2390,
          row_silver_spot = Fin 28.5, row_updated_at = ''2024-04-15T14:00:00.000Z''\<rparr>,
         \<lparr>row_date = ''2024-04-20'', row_slv_ratio = Fin 0.93, row_gld_ratio = Fin 0.094,
          row_slv_price = Fin 26.5, row_gld_price = Fin 225, row_gold_spot = Fin 2393,
          row_silver_spot = Fin 28.4, row_updated_at = ''2024-04-20T14:00:00.000Z''\<rparr>],
       console = []\<rparr> ''2024-04-20'' =
     \<lparr>slv_ratio = Fin 0.93, gld_ratio = Fin 0.094\<rparr>
   \<and> getRatioForDate (Fin 0.92) (Fin 0.092) True
      \<lparr>ratioCache = \<lparr>slvRatio = Fin 0.93, gldRatio = Fin 0.094, date = Some ''2024-04-20''\<rparr>,
       etf_ratios = Some
        [\<lparr>row_date = ''2024-04-15'', row_slv_ratio = Fin 0.91, row_gld_ratio = Fin 0.091,
          row_slv_price = Fin 26, row_gld_price = Fin 218, row_gold_spot = Fin 2390,
          row_silver_spot = Fin 28.5, row_updated_at = ''2024-04-15T14:00:00.000Z''\<rparr>,
         \<lparr>row_date = ''2024-04-20'', row_slv_ratio = Fin 0.93, row_gld_ratio = Fin 0.094,
          row_slv_price = Fin 26.5, row_gld_price = Fin 225, row_gold_spot = Fin 2393,
          row_silver_spot = Fin 28.4, row_updated_at = ''2024-04-20T14:00:00.000Z''\<rparr>],
       console = []\<rparr> ''2024-04-18'' =
     \<lparr>slv_ratio = Fin 0.91, gld_ratio = Fin 0.091\<rparr>
   \<and> getRatioForDate (Fin 0.92) (Fin 0.092) True
      \<lparr>ratioCache = \<lparr>slvRatio = Fin 0.93, gldRatio = Fin 0.094, date = Some ''2024-04-20''\<rparr>,
       etf_ratios = Some
        [\<lparr>row_date = ''2024-04-15'', row_slv_ratio = Fin 0.91, row_gld_ratio = Fin 0.091,
          row_slv_price = Fin 26, row_gld_price = Fin 218, row_gold_spot = Fin 2390,
          row_silver_spot = Fin 28.5, row_updated_at = ''2024-04-15T14:00:00.000Z''\<rparr>,
         \<lparr>row_date = ''2024-04-20'', row_slv_ratio = Fin 0.93, row_gld_ratio = Fin 0.094,
          row_slv_price = Fin 26.5, row_gld_price = Fin 225, row_gold_spot = Fin 2393,
          row_silver_spot = Fin 28.4, row_updated_at = ''2024-04-20T14:00:00.000Z''\<rparr>],
       console = []\<rparr> ''2024-04-10'' =
     \<lparr>slv_ratio = Fin 0.92, gld_ratio = Fin 0.092\<rparr>"
proof -
  let ?r1 = "\<lparr>row_date = ''2024-04-15'', row_slv_ratio = Fin 0.91, row_gld_ratio = Fin 0.091,
          row_slv_price = Fin 26, row_gld_price = Fin 218, row_gold_spot = Fin 2390,
          row_silver_spot = Fin 28.5, row_updated_at = ''2024-04-15T14:00:00.000Z''\<rparr>"
  let ?r2 = "\<lparr>row_date = ''2024-04-20'', row_slv_ratio = Fin 0.93, row_gld_ratio = Fin 0.094,
          row_slv_price = Fin 26.5, row_gld_price = Fin 225, row_gold_spot = Fin 2393,
          row_silver_spot = Fin 28.4, row_updated_at = ''2024-04-20T14:00:00.000Z''\<rparr>"
  let ?st = "\<lparr>ratioCache = \<lparr>slvRatio = Fin 0.93, gldRatio = Fin 0.094,
                 date = Some ''2024-04-20''\<rparr>,
       etf_ratios = Some [?r1, ?r2], console = []\<rparr>"
  have cached: "getRatioForDate (Fin 0.92) (Fin 0.092) True ?st ''2024-04-20'' =
     \<lparr>slv_ratio = Fin 0.93, gld_ratio = Fin 0.094\<rparr>"
    using getRatioForDate_order [of ?st "''2024-04-20''" "Fin 0.92" "Fin 0.092" True]
    by simp
  have le: "''2024-04-15'' \<le> ''2024-04-18''" "\<not> ''2024-04-20'' \<le> ''2024-04-18''"
    by simp_all
  have "date (ratioCache ?st) \<noteq> Some ''2024-04-18'' \<and> etf_ratios ?st = Some [?r1, ?r2] \<and> True
      \<and> (\<exists>r\<in>set [?r1, ?r2]. row_date r \<le> ''2024-04-18'')"
    using le by simp
  with getRatioForDate_order [of ?st "''2024-04-18''" "Fin 0.92" "Fin 0.092" True "[?r1, ?r2]"]
  obtain r where r: "r \<in> set [?r1, ?r2]" "row_date r \<le> ''2024-04-18''"
    and res: "getRatioForDate (Fin 0.92) (Fin 0.092) True ?st ''2024-04-18'' =
              \<lparr>slv_ratio = row_slv_ratio r, gld_ratio = row_gld_ratio r\<rparr>"
    by blast
  from r le have "r = ?r1" by auto
  with res have stored: "getRatioForDate (Fin 0.92) (Fin 0.092) True ?st ''2024-04-18'' =
     \<lparr>slv_ratio = Fin 0.91, gld_ratio = Fin 0.091\<rparr>"
    by simp
  have "\<not> ''2024-04-15'' \<le> ''2024-04-10''" "\<not> ''2024-04-20'' \<le> ''2024-04-10''"
    by simp_all
  then have "date (ratioCache ?st) \<noteq> Some ''2024-04-10''
        \<and> (etf_ratios ?st = None \<or> \<not> True
            \<or> (\<exists>rows. etf_ratios ?st = Some rows
                  \<and> (\<forall>r\<in>set rows. \<not> row_date r \<le> ''2024-04-10'')))"
    by simp
  with getRatioForDate_order [of ?st "''2024-04-10''" "Fin 0.92" "Fin 0.092" True]
  have default: "getRatioForDate (Fin 0.92) (Fin 0.092) True ?st ''2024-04-10'' =
     \<lparr>slv_ratio = Fin 0.92, gld_ratio = Fin 0.092\<rparr>"
    by blast
  from cached stored default show ?thesis by (intro conjI)
qed

section \<open>The bulk endpoint and metals other than gold and silver\<close>

text \<open>
  Lower-casing a second time changes nothing, so the metal that the endpoint passes on
  is the metal that \<open>getHistoricalPrice\<close> works with.
\<close>

lemma lowerChar_idem: "lowerChar (lowerChar c) = lowerChar c"
proof (cases "CHR ''A'' \<le> c \<and> c \<le> CHR ''Z''")
  case True
  define c' where "c' = char_of (of_char c + (32::nat))"
  from True have n: "65 \<le> (of_char c :: nat)" "(of_char c :: nat) \<le> 90"
    by (simp_all add: less_eq_char_def)
  then have "(of_char c' :: nat) = of_char c + 32"
    by (simp add: c'_def)
  with n have up: "\<not> c' \<le> CHR ''Z''"
    by (simp add: less_eq_char_def)
  from True have l1: "lowerChar c = c'"
    unfolding lowerChar_def c'_def by (simp only: simp_thms if_True)
  from up have l2: "lowerChar c' = c'"
    unfolding lowerChar_def by (simp only: simp_thms if_False)
  from l1 l2 show ?thesis by (simp only:)
next
  case False
  then have "lowerChar c = c" unfolding lowerChar_def by (simp only: simp_thms if_False)
  then show ?thesis by (simp only:)
qed

lemma toLowerCase_idem: "toLowerCase (toLowerCase s) = toLowerCase s"
  by (simp add: toLowerCase_def lowerChar_idem)

lemma toLowerCase_Nil_iff: "toLowerCase s = [] \<longleftrightarrow> s = []"
  by (simp add: toLowerCase_def)

lemma metalTypeOf_Str: "s \<noteq> [] \<Longrightarrow> metalTypeOf (Str s) = Inr (toLowerCase s)"
  by (simp add: metalTypeOf_def)

lemma metalTypeOf_again:
  assumes "metalTypeOf metal = Inr t"
  shows "metalTypeOf (Str t) = Inr t"
proof (cases "truthy metal")
  case False
  with assms have "t = toLowerCase ''silver''" by (simp add: metalTypeOf_def)
  then show ?thesis by (simp add: metalTypeOf_def toLowerCase_idem toLowerCase_Nil_iff)
next
  case True
  with assms obtain s where "metal = Str s" "s \<noteq> []" "t = toLowerCase s"
    by (cases metal) (auto simp: metalTypeOf_def)
  then show ?thesis by (simp add: metalTypeOf_def toLowerCase_idem toLowerCase_Nil_iff)
qed

lemma other_metal_fallback:
  assumes "metalTypeOf (Str t) = Inr t" "t \<noteq> ''gold''" "t \<noteq> ''silver''"
  shows "getHistoricalPrice getTime G R c s (Str t) =
     Inr \<lparr>price = gold c, source = ''fallback'',
          explanation = ''Historical data unavailable - using current price''\<rparr>"
  using assms by (simp add: getHistoricalPrice_def resolveHistorical_def)

lemma bulkLoop_other_metal:
  assumes "metalTypeOf (Str t) = Inr t" "t \<noteq> ''gold''" "t \<noteq> ''silver''"
  shows "\<exists>results'. bulkLoop getTime G R c t ds results = Inr results' \<and>
     (\<forall>s. map_of results' s =
        (if isDateFormat s \<and> Some s \<in> dateText ` set ds then Some (gold c)
         else map_of results s))"
proof (induction ds arbitrary: results)
  case Nil
  show ?case by simp
next
  case (Cons x ds)
  show ?case
  proof (cases "dateText x")
    case None
    with Cons.IH [of results] show ?thesis by auto
  next
    case (Some k)
    show ?thesis
    proof (cases "isDateFormat k")
      case False
      with Some Cons.IH [of results] show ?thesis by auto
    next
      case True
      from Cons.IH [of "AList.update k (gold c) results"]
      obtain results' where r: "bulkLoop getTime G R c t ds (AList.update k (gold c) results)
          = Inr results'"
        and m: "\<forall>s. map_of results' s =
        (if isDateFormat s \<and> Some s \<in> dateText ` set ds then Some (gold c)
         else map_of (AList.update k (gold c) results) s)"
        by blast
      from Some True r other_metal_fallback [OF assms, of getTime G R c k]
      have "bulkLoop getTime G R c t (x # ds) results = Inr results'" by simp
      moreover from m Some True have "\<forall>s. map_of results' s =
        (if isDateFormat s \<and> Some s \<in> dateText ` set (x # ds) then Some (gold c)
         else map_of results s)"
        by (auto simp: update_conv')
      ultimately show ?thesis by blast
    qed
  qed
qed

lemma metalTypeOf_Platinum: "metalTypeOf (Str ''Platinum'') = Inr ''platinum''"
  by code_simp

text \<open>
  Claim C10. \<open>POST /api/historical-spot/bulk\<close> does not validate the metal: for every
  \<open>metal\<close> whose lower-cased text (as the handler computes it, a missing or empty
  \<open>metal\<close> standing for silver) is neither \<open>gold\<close> nor \<open>silver\<close>, the answer is 200
  with \<open>success: true\<close>, and \<open>prices\<close> has exactly the well-formed dates among the first
  100 entries of \<open>dates\<close>, each with the gold price of the spot cache, whatever the
  historical tables hold.
\<close>

theorem bulk_unvalidated_metal:
  "metalTypeOf metal = Inr t \<and> t \<noteq> ''gold'' \<and> t \<noteq> ''silver'' \<longrightarrow>
     (\<exists>prices. historicalSpotBulk getTime G R spotPriceCache (Arr ds) metal = Status200 t prices
        \<and> (\<forall>s. map_of prices s =
             (if isDateFormat s \<and> Some s \<in> dateText ` set (take 100 ds)
              then Some (gold spotPriceCache) else None)))"
proof
  assume a: "metalTypeOf metal = Inr t \<and> t \<noteq> ''gold'' \<and> t \<noteq> ''silver''"
  then have "metalTypeOf metal = Inr t" by (rule conjunct1)
  then have again: "metalTypeOf (Str t) = Inr t" by (rule metalTypeOf_again)
  from a bulkLoop_other_metal [OF again, of getTime G R spotPriceCache "take 100 ds" "[]"]
  obtain prices where "bulkLoop getTime G R spotPriceCache t (take 100 ds) [] = Inr prices"
    and m: "\<forall>s. map_of prices s =
        (if isDateFormat s \<and> Some s \<in> dateText ` set (take 100 ds)
         then Some (gold spotPriceCache) else map_of [] s)"
    by blast
  with a have "historicalSpotBulk getTime G R spotPriceCache (Arr ds) metal = Status200 t prices"
    by (simp add: historicalSpotBulk_def)
  with m show "\<exists>prices. historicalSpotBulk getTime G R spotPriceCache (Arr ds) metal
        = Status200 t prices
        \<and> (\<forall>s. map_of prices s =
             (if isDateFormat s \<and> Some s \<in> dateText ` set (take 100 ds)
              then Some (gold spotPriceCache) else None))"
    by auto
qed

theorem bulk_unvalidated_metal_witness:
  "\<exists>prices.
     historicalSpotBulk isoDate [(''2024-04-19'', Fin 2391.50)] [(''2024-04-19'', Fin 84.5)]
       spotPriceCache_init
       (Arr [Str ''2024-04-19'', Str ''19 April 2024'', Number (Fin 5), Arr [Str ''1999-01-01'']])
       (Str ''Platinum'') = Status200 ''platinum'' prices
     \<and> map_of prices ''2024-04-19'' = Some (Number (Fin 2650))
     \<and> map_of prices ''1999-01-01'' = Some (Number (Fin 2650))
     \<and> map_of prices ''19 April 2024'' = None"
proof -
  let ?ds = "[Str ''2024-04-19'', Str ''19 April 2024'', Number (Fin 5), Arr [Str ''1999-01-01'']]"
  have fmt: "isDateFormat ''2024-04-19''" "isDateFormat ''1999-01-01''"
    "\<not> isDateFormat ''19 April 2024''"
    by (simp_all add: isDateFormat_def digit_def)
  have texts: "dateText ` set (take 100 ?ds)
      = {Some ''2024-04-19'', Some ''19 April 2024'', None, Some ''1999-01-01''}"
    by simp
  from bulk_unvalidated_metal [of "Str ''Platinum''" "''platinum''" isoDate
      "[(''2024-04-19'', Fin 2391.50)]" "[(''2024-04-19'', Fin 84.5)]" spotPriceCache_init ?ds]
    metalTypeOf_Platinum
  obtain prices where res: "historicalSpotBulk isoDate [(''2024-04-19'', Fin 2391.50)]
       [(''2024-04-19'', Fin 84.5)] spotPriceCache_init (Arr ?ds) (Str ''Platinum'')
       = Status200 ''platinum'' prices"
    and m: "\<forall>s. map_of prices s =
             (if isDateFormat s \<and> Some s \<in> dateText ` set (take 100 ?ds)
              then Some (gold spotPriceCache_init) else None)"
    by auto
  from m fmt texts have "map_of prices ''2024-04-19'' = Some (Number (Fin 2650))"
    "map_of prices ''1999-01-01'' = Some (Number (Fin 2650))"
    "map_of prices ''19 April 2024'' = None"
    by (simp_all add: spotPriceCache_init_def)
  with res show ?thesis by blast
qed

end
